theory Spec2Isabelle
  imports Complex_Main
begin

section \<open>SkeeterHawk: sonar detection and guidance pipeline\<close>

text \<open>
  The firmware computes on C \<^verbatim>\<open>float\<close> values. In this development a float is an
  exact real number: rounding, overflow and the table interpolation inside the CMSIS
  routines \<^verbatim>\<open>arm_cos_f32\<close> and \<^verbatim>\<open>arm_sin_f32\<close> are not represented, so
  \<^verbatim>\<open>arm_cos_f32\<close> is \<^const>\<open>cos\<close>, \<^verbatim>\<open>sqrtf\<close> is \<^const>\<open>sqrt\<close> and
  \<^verbatim>\<open>fabsf\<close> is \<^const>\<open>abs\<close>. Values of type \<^verbatim>\<open>uint32_t\<close> are natural numbers;
  none of the arithmetic performed on them below can wrap for arrays that fit
  the address space; where an unsigned subtraction could wrap, the text at the loop
  says why it is not reached. A pointer argument is an \<^typ>\<open>'a option\<close>: \<^const>\<open>None\<close> is
  \<^verbatim>\<open>NULL\<close>, \<^term>\<open>Some x\<close> points to an object holding \<open>x\<close>. A function that
  writes through a pointer returns the pointed-to object after the call.
  Return codes are the integers of the source.
\<close>

subsection \<open>Data model (sonar.h)\<close>

record target_info_t =
  range_cm :: real
  azimuth_rad :: real
  elevation_rad :: real
  confidence :: real
  valid :: bool

record sonar_state_t =
  tx_chirp :: "real list"
  matched_filter :: "real list"
  rx_buffer :: "real list list"
  filtered_buffer :: "real list list"
  beamformed_output :: "real list"
  target :: target_info_t
  processing_complete :: bool
  sample_count :: nat

text \<open>Configuration constants of sonar.h and sonar.c.\<close>

definition SONAR_SAMPLE_RATE :: nat where "SONAR_SAMPLE_RATE = 200000"
definition SONAR_CHIRP_DURATION_MS :: nat where "SONAR_CHIRP_DURATION_MS = 1"
definition SONAR_CHIRP_F0 :: nat where "SONAR_CHIRP_F0 = 38000"
definition SONAR_CHIRP_F1 :: nat where "SONAR_CHIRP_F1 = 42000"
definition SONAR_CHIRP_SAMPLES :: nat where
  "SONAR_CHIRP_SAMPLES = SONAR_SAMPLE_RATE * SONAR_CHIRP_DURATION_MS div 1000"
definition NUM_MICS :: nat where "NUM_MICS = 4"
definition BEAMFORM_AZIMUTH_STEPS :: nat where "BEAMFORM_AZIMUTH_STEPS = 20"
definition BEAMFORM_ELEVATION_STEPS :: nat where "BEAMFORM_ELEVATION_STEPS = 20"
definition BEAMFORM_AZIMUTH_MIN :: real where "BEAMFORM_AZIMUTH_MIN = - pi / 2"
definition BEAMFORM_AZIMUTH_MAX :: real where "BEAMFORM_AZIMUTH_MAX = pi / 2"
definition BEAMFORM_ELEVATION_MIN :: real where "BEAMFORM_ELEVATION_MIN = - pi / 4"
definition BEAMFORM_ELEVATION_MAX :: real where "BEAMFORM_ELEVATION_MAX = pi / 4"
definition DETECTION_THRESHOLD :: real where "DETECTION_THRESHOLD = 1000.0"
definition MIN_RANGE_CM :: nat where "MIN_RANGE_CM = 10"
definition MAX_RANGE_CM :: nat where "MAX_RANGE_CM = 500"
definition SPEED_OF_SOUND :: real where "SPEED_OF_SOUND = 343.0"

definition mic_positions :: "real list list" where
  "mic_positions =
     [[- 0.005, - 0.005, 0.0],
      [  0.005, - 0.005, 0.0],
      [- 0.005,   0.005, 0.0],
      [  0.005,   0.005, 0.0]]"

subsection \<open>sonar\_generate\_chirp (sonar.c)\<close>

text \<open>
  The cells of the chirp buffer are of type \<open>float32\<close>: a real number, or \<open>NaN\<close>.
  For \<^verbatim>\<open>length = 1\<close> the Hann window argument \<^verbatim>\<open>2.0f * M_PI * i / (length - 1)\<close> is
  \<open>0 / 0\<close>, which is NaN in IEEE arithmetic, and so are its cosine, the window and the
  stored product. For \<^verbatim>\<open>length = 0\<close> the chirp rate is a division by zero as well, but
  the loop body that would use it does not run. The function is \<^verbatim>\<open>void\<close>: the model
  returns the buffer after the call and nothing else.
\<close>

datatype float32 = Finite real | NaN

function chirp_loop :: "float32 list \<Rightarrow> nat \<Rightarrow> real \<Rightarrow> real \<Rightarrow> real \<Rightarrow> nat \<Rightarrow> float32 list" where
  "chirp_loop chirp len fs f0 chirp_rate i =
     (if i < len then
        (let t = real i / fs;
             phase = 2 * pi * (f0 * t + 0.5 * chirp_rate * t * t)
         in chirp_loop
              (chirp[i := (if len - 1 = 0 then NaN
                           else Finite (cos phase
                                  * (0.5 * (1 - cos (2 * pi * real i / real (len - 1))))))])
              len fs f0 chirp_rate (i + 1))
      else chirp)"
  by pat_completeness auto
termination
  by (relation "measure (\<lambda>(chirp, len, fs, f0, chirp_rate, i). len - i)") auto

definition sonar_generate_chirp :: "float32 list \<Rightarrow> nat \<Rightarrow> float32 list" where
  "sonar_generate_chirp chirp len =
     (let fs = real SONAR_SAMPLE_RATE;
          duration = real len / fs;
          f0 = real SONAR_CHIRP_F0;
          f1 = real SONAR_CHIRP_F1;
          bandwidth = f1 - f0;
          chirp_rate = bandwidth / duration
      in chirp_loop chirp len fs f0 chirp_rate 0)"

text \<open>
  The waveform in the words of the specification:
  \<open>cos (2\<pi> (f0 t + 0.5 k t\<^sup>2))\<close> times the Hann window \<open>0.5 (1 - cos (2\<pi> i / (length - 1)))\<close>
  with \<open>t = i / sampleRate\<close>, \<open>k = (f1 - f0) / duration\<close> and
  \<open>duration = length / sampleRate\<close>.
\<close>

definition chirp_spec :: "nat \<Rightarrow> real \<Rightarrow> real \<Rightarrow> real \<Rightarrow> nat \<Rightarrow> real" where
  "chirp_spec len sampleRate f0 f1 i =
     (let t = real i / sampleRate;
          duration = real len / sampleRate;
          k = (f1 - f0) / duration
      in cos (2 * pi * (f0 * t + 0.5 * k * t\<^sup>2))
         * (0.5 * (1 - cos (2 * pi * real i / (real len - 1)))))"

subsection \<open>sonar\_matched\_filter (sonar.c)\<close>

text \<open>
  \<^verbatim>\<open>arm_correlate_f32\<close> is a routine of the CMSIS-DSP library, which is not part of
  the repository. It is a parameter of the model: a function from the two sources,
  their lengths and the destination buffer to the destination buffer after the call.
\<close>

definition sonar_matched_filter ::
  "(real list \<Rightarrow> nat \<Rightarrow> real list \<Rightarrow> nat \<Rightarrow> real list \<Rightarrow> real list)
     \<Rightarrow> sonar_state_t option \<Rightarrow> nat \<Rightarrow> sonar_state_t option" where
  "sonar_matched_filter arm_correlate_f32 state mic_idx =
     (case state of
        None \<Rightarrow> None
      | Some s \<Rightarrow>
          if mic_idx \<ge> NUM_MICS then state
          else Some (s\<lparr>filtered_buffer :=
                         (filtered_buffer s)
                           [mic_idx := arm_correlate_f32 (rx_buffer s ! mic_idx) (sample_count s)
                                         (matched_filter s) SONAR_CHIRP_SAMPLES
                                         (filtered_buffer s ! mic_idx)]\<rparr>))"

subsection \<open>sonar\_beamform (sonar.c)\<close>

text \<open>
  The cast \<^verbatim>\<open>(int32_t)\<close> of a float drops the fractional part (rounds toward zero).
\<close>

definition int32_of_float :: "real \<Rightarrow> int" where
  "int32_of_float x = (if 0 \<le> x then \<lfloor>x\<rfloor> else \<lceil>x\<rceil>)"

text \<open>
  The inner loop \<^verbatim>\<open>for (j = 0; j < state->sample_count; j++)\<close> over one channel; \<open>n\<close>
  is the sample count. The indices \<^verbatim>\<open>(int32_t)j\<close> and \<^verbatim>\<open>(int32_t)state->sample_count\<close>
  are integers; sample counts stay far below \<open>2\<^sup>3\<^sup>1\<close>.
\<close>

function beamform_channel :: "real list \<Rightarrow> real list \<Rightarrow> int \<Rightarrow> nat \<Rightarrow> nat \<Rightarrow> real list" where
  "beamform_channel out chan delay_samples n j =
     (if j < n then
        (let src_idx = int j - delay_samples
         in if src_idx \<ge> 0 \<and> src_idx < int n
            then beamform_channel (out[j := out ! j + chan ! nat src_idx]) chan delay_samples n (j + 1)
            else beamform_channel out chan delay_samples n (j + 1))
      else out)"
  by pat_completeness auto
termination
  by (relation "measure (\<lambda>(out, chan, delay_samples, n, j). n - j)") auto

text \<open>The outer loop \<^verbatim>\<open>for (i = 0; i < NUM_MICS; i++)\<close>.\<close>

function delay_and_sum :: "real list \<Rightarrow> real list list \<Rightarrow> real list \<Rightarrow> nat \<Rightarrow> nat \<Rightarrow> real list" where
  "delay_and_sum out filtered delays n i =
     (if i < NUM_MICS then
        (let delay_samples = int32_of_float (delays ! i * real SONAR_SAMPLE_RATE)
         in delay_and_sum (beamform_channel out (filtered ! i) delay_samples n 0)
              filtered delays n (i + 1))
      else out)"
  by pat_completeness auto
termination
  by (relation "measure (\<lambda>(out, filtered, delays, n, i). NUM_MICS - i)") auto

text \<open>
  \<^verbatim>\<open>arm_scale_f32\<close> (CMSIS-DSP, outside the repository) multiplies the first
  \<open>blockSize\<close> samples of the source by the scale and stores them in the destination.
  \<^verbatim>\<open>memset\<close> clears the first \<open>sample_count\<close> cells of the output.
\<close>

definition arm_scale_f32 :: "real list \<Rightarrow> real \<Rightarrow> real list \<Rightarrow> nat \<Rightarrow> real list" where
  "arm_scale_f32 pSrc scale pDst blockSize =
     map (\<lambda>x. x * scale) (take blockSize pSrc) @ drop blockSize pDst"

definition sonar_beamform :: "sonar_state_t option \<Rightarrow> real \<Rightarrow> real \<Rightarrow> sonar_state_t option" where
  "sonar_beamform state azimuth elevation =
     (case state of
        None \<Rightarrow> None
      | Some s \<Rightarrow>
          (let steering_dir = [cos elevation * cos azimuth,
                               cos elevation * sin azimuth,
                               sin elevation];
               delays = map (\<lambda>i. (mic_positions ! i ! 0 * steering_dir ! 0 +
                                    mic_positions ! i ! 1 * steering_dir ! 1 +
                                    mic_positions ! i ! 2 * steering_dir ! 2) / SPEED_OF_SOUND)
                            [0..<NUM_MICS];
               delay_offset = delays ! 0;
               delays = map (\<lambda>d. d - delay_offset) delays;
               cleared = replicate (sample_count s) 0 @ drop (sample_count s) (beamformed_output s);
               summed = delay_and_sum cleared (filtered_buffer s) delays (sample_count s) 0
           in Some (s\<lparr>beamformed_output :=
                        arm_scale_f32 summed (1 / real NUM_MICS) summed (sample_count s)\<rparr>)))"

text \<open>
  The beamformer in the words of the specification: the delay of a channel relative to
  the reference channel 0, and the sample a channel contributes at output index \<open>j\<close>
  for an integer shift, zero when the shifted index falls outside \<open>[0, L)\<close>.
\<close>

definition shifted_sample :: "real list \<Rightarrow> int \<Rightarrow> nat \<Rightarrow> nat \<Rightarrow> real" where
  "shifted_sample chan shift L j =
     (if 0 \<le> int j - shift \<and> int j - shift < int L then chan ! nat (int j - shift) else 0)"

definition steering_delay :: "real \<Rightarrow> real \<Rightarrow> nat \<Rightarrow> real" where
  "steering_delay azimuth elevation i =
     (mic_positions ! i ! 0 * (cos elevation * cos azimuth) +
      mic_positions ! i ! 1 * (cos elevation * sin azimuth) +
      mic_positions ! i ! 2 * sin elevation) / SPEED_OF_SOUND"

definition relative_delay :: "real \<Rightarrow> real \<Rightarrow> nat \<Rightarrow> real" where
  "relative_delay azimuth elevation i =
     steering_delay azimuth elevation i - steering_delay azimuth elevation 0"

subsection \<open>sonar\_detect\_target (sonar.c)\<close>

text \<open>
  \<^verbatim>\<open>arm_max_f32\<close> (CMSIS-DSP, outside the repository) returns the largest sample of
  the block and the index of its first occurrence: it starts from sample \<open>0\<close> and
  replaces the running maximum when a later sample is strictly greater. The block size
  must be at least 1.
\<close>

function arm_max_loop :: "real list \<Rightarrow> nat \<Rightarrow> nat \<Rightarrow> real \<Rightarrow> nat \<Rightarrow> real \<times> nat" where
  "arm_max_loop pSrc blockSize i out outIndex =
     (if i < blockSize then
        (if out < pSrc ! i then arm_max_loop pSrc blockSize (i + 1) (pSrc ! i) i
         else arm_max_loop pSrc blockSize (i + 1) out outIndex)
      else (out, outIndex))"
  by pat_completeness auto
termination
  by (relation "measure (\<lambda>(pSrc, blockSize, i, out, outIndex). blockSize - i)") auto

definition arm_max_f32 :: "real list \<Rightarrow> nat \<Rightarrow> real \<times> nat" where
  "arm_max_f32 pSrc blockSize = arm_max_loop pSrc blockSize 1 (pSrc ! 0) 0"

text \<open>
  The angular scan: the inner loop over \<^verbatim>\<open>el_idx\<close> and the outer loop over \<^verbatim>\<open>az_idx\<close>.
  The loops carry the state (sonar\_beamform overwrites its output buffer at every grid
  point) and the locals \<^verbatim>\<open>max_power\<close>, \<^verbatim>\<open>best_azimuth\<close>, \<^verbatim>\<open>best_elevation\<close>,
  \<^verbatim>\<open>best_peak_idx\<close>.
\<close>

function scan_elevation ::
  "sonar_state_t \<Rightarrow> real \<Rightarrow> real \<Rightarrow> nat \<Rightarrow> real \<times> real \<times> real \<times> nat
     \<Rightarrow> sonar_state_t \<times> real \<times> real \<times> real \<times> nat" where
  "scan_elevation state azimuth el_step el_idx (max_power, best_azimuth, best_elevation, best_peak_idx) =
     (if el_idx < BEAMFORM_ELEVATION_STEPS then
        (let elevation = BEAMFORM_ELEVATION_MIN + real el_idx * el_step;
             state' = the (sonar_beamform (Some state) azimuth elevation)
         in case arm_max_f32 (beamformed_output state') (sample_count state') of
              (max_val, max_idx) \<Rightarrow>
                (let power = \<bar>max_val\<bar>
                 in if power > max_power
                    then scan_elevation state' azimuth el_step (el_idx + 1)
                           (power, azimuth, elevation, max_idx)
                    else scan_elevation state' azimuth el_step (el_idx + 1)
                           (max_power, best_azimuth, best_elevation, best_peak_idx)))
      else (state, max_power, best_azimuth, best_elevation, best_peak_idx))"
  by pat_completeness auto
termination
  by (relation "measure (\<lambda>(state, azimuth, el_step, el_idx, best). BEAMFORM_ELEVATION_STEPS - el_idx)")
     auto

function scan_azimuth ::
  "sonar_state_t \<Rightarrow> real \<Rightarrow> real \<Rightarrow> nat \<Rightarrow> real \<times> real \<times> real \<times> nat
     \<Rightarrow> sonar_state_t \<times> real \<times> real \<times> real \<times> nat" where
  "scan_azimuth state az_step el_step az_idx best =
     (if az_idx < BEAMFORM_AZIMUTH_STEPS then
        (let azimuth = BEAMFORM_AZIMUTH_MIN + real az_idx * az_step
         in case scan_elevation state azimuth el_step 0 best of
              (state', best') \<Rightarrow> scan_azimuth state' az_step el_step (az_idx + 1) best')
      else (state, best))"
  by pat_completeness auto
termination
  by (relation "measure (\<lambda>(state, az_step, el_step, az_idx, best). BEAMFORM_AZIMUTH_STEPS - az_idx)")
     auto

definition sonar_detect_target ::
  "(real list \<Rightarrow> nat \<Rightarrow> real list \<Rightarrow> nat \<Rightarrow> real list \<Rightarrow> real list)
     \<Rightarrow> sonar_state_t option \<Rightarrow> int \<times> sonar_state_t option" where
  "sonar_detect_target arm_correlate_f32 state =
     (case state of
        None \<Rightarrow> (-1, None)
      | Some _ \<Rightarrow>
          (let filtered = fold (\<lambda>i st. sonar_matched_filter arm_correlate_f32 st i)
                            [0..<NUM_MICS] state;
               az_step = (BEAMFORM_AZIMUTH_MAX - BEAMFORM_AZIMUTH_MIN)
                         / real BEAMFORM_AZIMUTH_STEPS;
               el_step = (BEAMFORM_ELEVATION_MAX - BEAMFORM_ELEVATION_MIN)
                         / real BEAMFORM_ELEVATION_STEPS
           in case scan_azimuth (the filtered) az_step el_step 0 (0, 0, 0, 0) of
                (s, max_power, best_azimuth, best_elevation, best_peak_idx) \<Rightarrow>
                  if max_power < DETECTION_THRESHOLD then
                    (-2, Some (s\<lparr>target := (target s)\<lparr>valid := False\<rparr>\<rparr>))
                  else
                    (let tof = real best_peak_idx / real SONAR_SAMPLE_RATE;
                         range = (tof * SPEED_OF_SOUND * 100) / 2
                     in if range < real MIN_RANGE_CM \<or> range > real MAX_RANGE_CM then
                          (-3, Some (s\<lparr>target := (target s)\<lparr>valid := False\<rparr>\<rparr>))
                        else
                          (0, Some (s\<lparr>target := (target s)
                                        \<lparr>range_cm := range,
                                         azimuth_rad := best_azimuth,
                                         elevation_rad := best_elevation,
                                         confidence := min (max_power / (DETECTION_THRESHOLD * 10)) 1,
                                         valid := True\<rparr>,
                                      processing_complete := True\<rparr>)))))"

text \<open>
  The round-trip range in the words of the specification:
  \<open>(peakIndex / sampleRate) \<sqdot> speedOfSound \<sqdot> 100 / 2\<close>.
\<close>

definition round_trip_range_cm :: "nat \<Rightarrow> real" where
  "round_trip_range_cm peakIndex =
     (real peakIndex / real SONAR_SAMPLE_RATE) * SPEED_OF_SOUND * 100 / 2"

subsection \<open>sonar\_get\_target (sonar.c)\<close>

definition sonar_get_target ::
  "sonar_state_t option \<Rightarrow> target_info_t option \<Rightarrow> int \<times> target_info_t option" where
  "sonar_get_target state target_out =
     (case state of
        None \<Rightarrow> (-1, target_out)
      | Some s \<Rightarrow>
          (case target_out of
             None \<Rightarrow> (-1, target_out)
           | Some _ \<Rightarrow>
               if \<not> valid (target s) then (-2, target_out)
               else (0, Some (target s))))"

subsection \<open>Signal utilities (signal\_utils.h, signal\_utils.c)\<close>

text \<open>
  The fields \<^verbatim>\<open>range_cm\<close>, \<^verbatim>\<open>azimuth_rad\<close>, \<^verbatim>\<open>elevation_rad\<close>, \<^verbatim>\<open>power\<close> and
  \<^verbatim>\<open>sample_count\<close> of \<^verbatim>\<open>target_cluster_t\<close> carry the prefix \<open>cl_\<close>, and the field
  \<^verbatim>\<open>valid\<close> of \<^verbatim>\<open>multi_target_result_t\<close> is \<open>result_valid\<close>: the plain names are
  taken by the records above or by the library.
\<close>

record target_cluster_t =
  cl_range_cm :: real
  cl_azimuth_rad :: real
  cl_elevation_rad :: real
  cl_power :: real
  cl_sample_count :: nat

record multi_target_result_t =
  targets :: "target_cluster_t list"
  num_targets :: nat
  result_valid :: bool

definition ADAPTIVE_THRESHOLD_FACTOR :: real where "ADAPTIVE_THRESHOLD_FACTOR = 3"
definition MAX_TARGETS :: nat where "MAX_TARGETS = 5"
definition MIN_TARGET_SEPARATION_CM :: nat where "MIN_TARGET_SEPARATION_CM = 20"

text \<open>
  \<^verbatim>\<open>arm_mean_f32\<close> and \<^verbatim>\<open>arm_std_f32\<close> are routines of the CMSIS-DSP library, which
  is not part of the repository. They follow the library's documentation: the mean is
  the sum over the block size; the standard deviation is
  \<open>sqrt ((sumOfSquares - sum\<^sup>2 / blockSize) / (blockSize - 1))\<close>, and \<open>0\<close> for a block
  of at most one sample.
\<close>

definition arm_mean_f32 :: "real list \<Rightarrow> nat \<Rightarrow> real" where
  "arm_mean_f32 pSrc blockSize = sum_list (take blockSize pSrc) / real blockSize"

definition arm_std_f32 :: "real list \<Rightarrow> nat \<Rightarrow> real" where
  "arm_std_f32 pSrc blockSize =
     (if blockSize \<le> 1 then 0
      else sqrt ((sum_list (map (\<lambda>x. x * x) (take blockSize pSrc))
                  - sum_list (take blockSize pSrc) * sum_list (take blockSize pSrc) / real blockSize)
                 / (real blockSize - 1)))"

definition signal_adaptive_threshold ::
  "real list option \<Rightarrow> nat \<Rightarrow> real option \<Rightarrow> int \<times> real option" where
  "signal_adaptive_threshold signal len threshold =
     (case (signal, threshold) of
        (Some sig, Some _) \<Rightarrow>
          if len = 0 then (-1, threshold)
          else (let mean = arm_mean_f32 sig len; std = arm_std_f32 sig len
                in (0, Some (mean + ADAPTIVE_THRESHOLD_FACTOR * std)))
      | _ \<Rightarrow> (-1, threshold))"

text \<open>
  The loop \<^verbatim>\<open>for (i = 1; i < length - 1 && *num_peaks < max_peaks; i++)\<close> with its
  state: the index \<open>i\<close>, the output array \<open>peaks\<close> and the counter \<open>num_peaks\<close>.
  The source parameter \<^verbatim>\<open>length\<close> is called \<open>len\<close>. The loop is entered only with
  \<open>len \<ge> 1\<close> (a zero length is rejected before), so \<open>len - 1\<close> does not wrap.
\<close>

function find_peaks_loop ::
  "real list \<Rightarrow> nat \<Rightarrow> real \<Rightarrow> nat \<Rightarrow> nat \<Rightarrow> nat list \<Rightarrow> nat \<Rightarrow> nat list \<times> nat" where
  "find_peaks_loop signal len threshold max_peaks i peaks num_peaks =
     (if i < len - 1 \<and> num_peaks < max_peaks then
        (let val = \<bar>signal ! i\<bar> in
         if val > threshold \<and> val > \<bar>signal ! (i - 1)\<bar> \<and> val > \<bar>signal ! (i + 1)\<bar>
         then find_peaks_loop signal len threshold max_peaks (i + 1)
                (peaks[num_peaks := i]) (num_peaks + 1)
         else find_peaks_loop signal len threshold max_peaks (i + 1) peaks num_peaks)
      else (peaks, num_peaks))"
  by pat_completeness auto
termination
  by (relation "measure (\<lambda>(signal, len, threshold, max_peaks, i, peaks, num_peaks). len - 1 - i)")
     auto

definition signal_find_peaks ::
  "real list option \<Rightarrow> nat \<Rightarrow> real \<Rightarrow> nat list option \<Rightarrow> nat \<Rightarrow> nat option
     \<Rightarrow> int \<times> nat list option \<times> nat option" where
  "signal_find_peaks signal len threshold peaks max_peaks num_peaks =
     (case (signal, peaks, num_peaks) of
        (Some sig, Some pk, Some _) \<Rightarrow>
          if len = 0 then (-1, peaks, num_peaks)
          else (case find_peaks_loop sig len threshold max_peaks 1 pk 0 of
                  (pk', n) \<Rightarrow> (0, Some pk', Some n))
      | _ \<Rightarrow> (-1, peaks, num_peaks))"

text \<open>
  The peak condition in the words of the specification: an interior index whose
  absolute sample value exceeds the threshold and both neighbours' absolute values.
\<close>

definition strict_local_peak :: "real list \<Rightarrow> nat \<Rightarrow> real \<Rightarrow> nat \<Rightarrow> bool" where
  "strict_local_peak signal len threshold p \<longleftrightarrow>
     1 \<le> p \<and> p + 2 \<le> len \<and>
     \<bar>signal ! p\<bar> > threshold \<and>
     \<bar>signal ! p\<bar> > \<bar>signal ! (p - 1)\<bar> \<and>
     \<bar>signal ! p\<bar> > \<bar>signal ! (p + 1)\<bar>"

text \<open>
  The inner loop of signal\_cluster\_detections, \<^verbatim>\<open>for (j = i + 1; j < num_peaks; j++)\<close>.
  The source updates the cluster through the pointer \<^verbatim>\<open>cluster = &clusters[*num_clusters]\<close>;
  here the cluster record is passed along and stored into the array by the outer loop.
  \<^verbatim>\<open>fmaxf\<close> is \<^const>\<open>max\<close>.
\<close>

function cluster_merge_loop ::
  "nat list \<Rightarrow> nat \<Rightarrow> real list \<Rightarrow> nat \<Rightarrow> nat \<Rightarrow> target_cluster_t \<Rightarrow> bool list
     \<Rightarrow> target_cluster_t \<times> bool list" where
  "cluster_merge_loop peaks num_peaks signal sample_rate j cluster processed =
     (if j < num_peaks then
        (if processed ! j then
           cluster_merge_loop peaks num_peaks signal sample_rate (j + 1) cluster processed
         else
           (let range_j = (real (peaks ! j) * SPEED_OF_SOUND * 100) / (2 * real sample_rate);
                separation = \<bar>range_j - cl_range_cm cluster\<bar>
            in if separation < real MIN_TARGET_SEPARATION_CM then
                 cluster_merge_loop peaks num_peaks signal sample_rate (j + 1)
                   (cluster\<lparr>cl_range_cm :=
                               (cl_range_cm cluster * real (cl_sample_count cluster) + range_j)
                               / real (cl_sample_count cluster + 1),
                            cl_power := max (cl_power cluster) \<bar>signal ! (peaks ! j)\<bar>,
                            cl_sample_count := cl_sample_count cluster + 1\<rparr>)
                   (processed[j := True])
               else
                 cluster_merge_loop peaks num_peaks signal sample_rate (j + 1) cluster processed))
      else (cluster, processed))"
  by pat_completeness auto
termination
  by (relation "measure (\<lambda>(peaks, num_peaks, signal, sample_rate, j, cluster, processed). num_peaks - j)")
     auto

text \<open>
  The outer loop, \<^verbatim>\<open>for (i = 0; i < num_peaks && *num_clusters < max_clusters; i++)\<close>.
\<close>

function cluster_loop ::
  "nat list \<Rightarrow> nat \<Rightarrow> real list \<Rightarrow> nat \<Rightarrow> nat \<Rightarrow> nat \<Rightarrow> target_cluster_t list \<Rightarrow> nat
     \<Rightarrow> bool list \<Rightarrow> target_cluster_t list \<times> nat" where
  "cluster_loop peaks num_peaks signal sample_rate max_clusters i clusters num_clusters processed =
     (if i < num_peaks \<and> num_clusters < max_clusters then
        (if processed ! i then
           cluster_loop peaks num_peaks signal sample_rate max_clusters (i + 1)
             clusters num_clusters processed
         else
           (case cluster_merge_loop peaks num_peaks signal sample_rate (i + 1)
                   ((clusters ! num_clusters)
                      \<lparr>cl_range_cm := (real (peaks ! i) * SPEED_OF_SOUND * 100)
                                      / (2 * real sample_rate),
                       cl_power := \<bar>signal ! (peaks ! i)\<bar>,
                       cl_sample_count := 1\<rparr>)
                   (processed[i := True]) of
              (cluster, processed') \<Rightarrow>
                cluster_loop peaks num_peaks signal sample_rate max_clusters (i + 1)
                  (clusters[num_clusters := cluster]) (num_clusters + 1) processed'))
      else (clusters, num_clusters))"
  by pat_completeness auto
termination
  by (relation "measure (\<lambda>(peaks, num_peaks, signal, sample_rate, max_clusters, i, clusters,
                           num_clusters, processed). num_peaks - i)")
     auto

text \<open>
  \<open>calloc_ok\<close> tells whether the allocation of the \<^verbatim>\<open>processed\<close> flags succeeds.
\<close>

definition signal_cluster_detections ::
  "nat list option \<Rightarrow> nat \<Rightarrow> real list option \<Rightarrow> nat \<Rightarrow> nat
     \<Rightarrow> target_cluster_t list option \<Rightarrow> nat \<Rightarrow> nat option \<Rightarrow> bool
     \<Rightarrow> int \<times> target_cluster_t list option \<times> nat option" where
  "signal_cluster_detections peaks num_peaks signal len sample_rate clusters max_clusters
       num_clusters calloc_ok =
     (case (peaks, signal, clusters, num_clusters) of
        (Some pk, Some sig, Some cl, Some _) \<Rightarrow>
          if num_peaks = 0 then (-1, clusters, num_clusters)
          else if \<not> calloc_ok then (-2, clusters, Some 0)
          else (case cluster_loop pk num_peaks sig sample_rate max_clusters 0 cl 0
                       (replicate num_peaks False) of
                  (cl', n) \<Rightarrow> (0, Some cl', Some n))
      | _ \<Rightarrow> (-1, clusters, num_clusters))"

text \<open>
  The copy loop of signal\_detect\_multi\_target,
  \<^verbatim>\<open>for (i = 0; i < num_clusters && i < MAX_TARGETS; i++)\<close>.
\<close>

definition copy_clusters ::
  "target_cluster_t list \<Rightarrow> nat \<Rightarrow> target_cluster_t list \<Rightarrow> target_cluster_t list" where
  "copy_clusters clusters num_clusters tgts =
     fold (\<lambda>i ts. ts[i := (clusters ! i)\<lparr>cl_azimuth_rad := 0, cl_elevation_rad := 0\<rparr>])
          [0..<min num_clusters MAX_TARGETS] tgts"

text \<open>
  The local arrays \<^verbatim>\<open>peaks\<close> and \<^verbatim>\<open>clusters\<close> and the locals \<^verbatim>\<open>threshold\<close>,
  \<^verbatim>\<open>num_peaks\<close> and \<^verbatim>\<open>num_clusters\<close> start uninitialised in the source; their
  initial contents are never read, and are zero here. The parameter
  \<^verbatim>\<open>beamformed_output\<close> is called \<open>beamformed\<close>.
\<close>

definition local_cluster :: target_cluster_t where
  "local_cluster = \<lparr>cl_range_cm = 0, cl_azimuth_rad = 0, cl_elevation_rad = 0, cl_power = 0,
                     cl_sample_count = 0\<rparr>"

definition signal_detect_multi_target ::
  "real list option \<Rightarrow> nat \<Rightarrow> nat \<Rightarrow> multi_target_result_t option \<Rightarrow> bool
     \<Rightarrow> int \<times> multi_target_result_t option" where
  "signal_detect_multi_target beamformed len sample_rate result calloc_ok =
     (case (beamformed, result) of
        (Some sig, Some res) \<Rightarrow>
          if len = 0 then (-1, result)
          else
            (let res0 = res\<lparr>num_targets := 0, result_valid := False\<rparr> in
             case signal_adaptive_threshold beamformed len (Some 0) of
               (rc_threshold, threshold) \<Rightarrow>
                 if rc_threshold \<noteq> 0 then (-2, Some res0)
                 else
                   (case signal_find_peaks beamformed len (the threshold)
                           (Some (replicate (MAX_TARGETS * 2) 0)) (MAX_TARGETS * 2) (Some 0) of
                      (rc_peaks, peaks, num_peaks) \<Rightarrow>
                        if rc_peaks \<noteq> 0 then (-3, Some res0)
                        else if the num_peaks = 0 then (0, Some res0)
                        else
                          (case signal_cluster_detections peaks (the num_peaks)
                                  beamformed len sample_rate
                                  (Some (replicate MAX_TARGETS local_cluster)) MAX_TARGETS
                                  (Some 0) calloc_ok of
                             (rc_clusters, clusters, num_clusters) \<Rightarrow>
                               if rc_clusters \<noteq> 0 then (-4, Some res0)
                               else
                                 (0, Some (res0\<lparr>targets := copy_clusters (the clusters)
                                                        (the num_clusters) (targets res0),
                                                  num_targets := the num_clusters,
                                                  result_valid := (the num_clusters > 0)\<rparr>)))))
      | _ \<Rightarrow> (-1, result))"

text \<open>
  The round-trip range formula and the merge update in the words of the specification:
  \<open>peakIndex \<sqdot> speedOfSound \<sqdot> 100 / (2 \<sqdot> sampleRate)\<close>, running weighted mean, maximum
  power.
\<close>

definition peak_range_cm :: "nat \<Rightarrow> nat \<Rightarrow> real" where
  "peak_range_cm peak_index sample_rate =
     real peak_index * SPEED_OF_SOUND * 100 / (2 * real sample_rate)"

definition merge_peak :: "target_cluster_t \<Rightarrow> real \<Rightarrow> real \<Rightarrow> target_cluster_t" where
  "merge_peak cluster range_j power_j =
     cluster\<lparr>cl_range_cm := (cl_range_cm cluster * real (cl_sample_count cluster) + range_j)
                              / real (cl_sample_count cluster + 1),
             cl_power := max (cl_power cluster) power_j,
             cl_sample_count := cl_sample_count cluster + 1\<rparr>"

subsection \<open>Guidance (guidance.h, guidance.c)\<close>

text \<open>
  In guidance\_compute the parameter \<^verbatim>\<open>target\<close> is called \<open>target_in\<close> and the locals
  \<^verbatim>\<open>accel_x\<close>, \<^verbatim>\<open>accel_y\<close>, \<^verbatim>\<open>accel_z\<close> are \<open>acc_x\<close>, \<open>acc_y\<close>, \<open>acc_z\<close>: the
  plain names are record fields.
\<close>

record vehicle_state_t =
  pos_x :: real
  pos_y :: real
  pos_z :: real
  vel_x :: real
  vel_y :: real
  vel_z :: real

record guidance_cmd_t =
  accel_x :: real
  accel_y :: real
  accel_z :: real
  intercept :: bool

definition GUIDANCE_N :: real where "GUIDANCE_N = 3.0"
definition GUIDANCE_MAX_ACCEL :: real where "GUIDANCE_MAX_ACCEL = 9.81"
definition GUIDANCE_MIN_RANGE_CM :: real where "GUIDANCE_MIN_RANGE_CM = 5.0"

definition guidance_compute ::
  "vehicle_state_t option \<Rightarrow> target_info_t option \<Rightarrow> guidance_cmd_t option
     \<Rightarrow> int \<times> guidance_cmd_t option" where
  "guidance_compute vehicle target_in cmd =
     (case (vehicle, target_in, cmd) of
        (Some v, Some t, Some c) \<Rightarrow>
          if \<not> valid t then (-2, cmd)
          else
            (let target_range_m = range_cm t / 100;
                 target_x = target_range_m * cos (elevation_rad t) * cos (azimuth_rad t);
                 target_y = target_range_m * cos (elevation_rad t) * sin (azimuth_rad t);
                 target_z = target_range_m * sin (elevation_rad t);
                 rel_x = target_x - pos_x v;
                 rel_y = target_y - pos_y v;
                 rel_z = target_z - pos_z v;
                 range = sqrt (rel_x * rel_x + rel_y * rel_y + rel_z * rel_z)
             in if range < GUIDANCE_MIN_RANGE_CM / 100 then
                  (0, Some (c\<lparr>intercept := True, accel_x := 0, accel_y := 0, accel_z := 0\<rparr>))
                else
                  (let los_x = rel_x / range;
                       los_y = rel_y / range;
                       los_z = rel_z / range;
                       rel_vel_x = - vel_x v;
                       rel_vel_y = - vel_y v;
                       rel_vel_z = - vel_z v;
                       closing_vel = los_x * rel_vel_x + los_y * rel_vel_y + los_z * rel_vel_z;
                       los_rate_x = (rel_vel_x - los_x * closing_vel) / range;
                       los_rate_y = (rel_vel_y - los_y * closing_vel) / range;
                       los_rate_z = (rel_vel_z - los_z * closing_vel) / range;
                       acc_x = GUIDANCE_N * closing_vel * los_rate_x;
                       acc_y = GUIDANCE_N * closing_vel * los_rate_y;
                       acc_z = GUIDANCE_N * closing_vel * los_rate_z;
                       accel_mag = sqrt (acc_x * acc_x + acc_y * acc_y + acc_z * acc_z)
                   in if accel_mag > GUIDANCE_MAX_ACCEL then
                        (let scale = GUIDANCE_MAX_ACCEL / accel_mag
                         in (0, Some (c\<lparr>accel_x := acc_x * scale, accel_y := acc_y * scale,
                                        accel_z := acc_z * scale, intercept := False\<rparr>)))
                      else
                        (0, Some (c\<lparr>accel_x := acc_x, accel_y := acc_y, accel_z := acc_z,
                                    intercept := False\<rparr>))))
      | _ \<Rightarrow> (-1, cmd))"

text \<open>
  The guidance law in the words of the specification, on vectors:
  \<open>relPos = targetPos - vehiclePos\<close>, \<open>range = |relPos|\<close>, \<open>LOS = relPos / range\<close>,
  \<open>relVel = - vehicleVel\<close>, \<open>closingVel = dot(LOS, relVel)\<close>,
  \<open>losRate = (relVel - LOS \<sqdot> closingVel) / range\<close>,
  \<open>accel = N \<sqdot> closingVel \<sqdot> losRate\<close>, and the clamp of \<open>|accel|\<close> to \<open>maxAccel\<close>
  that keeps the direction.
\<close>

type_synonym vec3 = "real \<times> real \<times> real"

fun vsub :: "vec3 \<Rightarrow> vec3 \<Rightarrow> vec3" where
  "vsub (a, b, c) (x, y, z) = (a - x, b - y, c - z)"

fun vdot :: "vec3 \<Rightarrow> vec3 \<Rightarrow> real" where
  "vdot (a, b, c) (x, y, z) = a * x + b * y + c * z"

fun vdiv :: "vec3 \<Rightarrow> real \<Rightarrow> vec3" where
  "vdiv (x, y, z) s = (x / s, y / s, z / s)"

fun vscale :: "real \<Rightarrow> vec3 \<Rightarrow> vec3" where
  "vscale s (x, y, z) = (s * x, s * y, s * z)"

fun vnorm :: "vec3 \<Rightarrow> real" where
  "vnorm (x, y, z) = sqrt (x * x + y * y + z * z)"

definition target_position :: "target_info_t \<Rightarrow> vec3" where
  "target_position t =
     (let r = range_cm t / 100
      in (r * cos (elevation_rad t) * cos (azimuth_rad t),
          r * cos (elevation_rad t) * sin (azimuth_rad t),
          r * sin (elevation_rad t)))"

definition vehicle_position :: "vehicle_state_t \<Rightarrow> vec3" where
  "vehicle_position v = (pos_x v, pos_y v, pos_z v)"

definition vehicle_velocity :: "vehicle_state_t \<Rightarrow> vec3" where
  "vehicle_velocity v = (vel_x v, vel_y v, vel_z v)"

definition pn_accel :: "vehicle_state_t \<Rightarrow> target_info_t \<Rightarrow> vec3" where
  "pn_accel v t =
     (let relPos = vsub (target_position t) (vehicle_position v);
          range = vnorm relPos;
          LOS = vdiv relPos range;
          relVel = vsub (0, 0, 0) (vehicle_velocity v);
          closingVel = vdot LOS relVel;
          losRate = vdiv (vsub relVel (vscale closingVel LOS)) range
      in vscale (GUIDANCE_N * closingVel) losRate)"

definition clamp_accel :: "vec3 \<Rightarrow> vec3" where
  "clamp_accel a =
     (if vnorm a > GUIDANCE_MAX_ACCEL then vscale (GUIDANCE_MAX_ACCEL / vnorm a) a else a)"

definition accel_of :: "guidance_cmd_t \<Rightarrow> vec3" where
  "accel_of c = (accel_x c, accel_y c, accel_z c)"

text \<open>guidance\_to\_motors: the mix onto four thrust channels and the clamp loop.\<close>

definition guidance_to_motors :: "guidance_cmd_t option \<Rightarrow> real list option \<Rightarrow> real list option" where
  "guidance_to_motors cmd motor_thrust =
     (case (cmd, motor_thrust) of
        (Some c, Some m) \<Rightarrow>
          (let base_thrust = 0.5;
               m = m[0 := base_thrust + accel_x c * 0.25 + accel_y c * 0.25 + accel_z c * 0.25];
               m = m[1 := base_thrust - accel_x c * 0.25 + accel_y c * 0.25 + accel_z c * 0.25];
               m = m[2 := base_thrust + accel_x c * 0.25 - accel_y c * 0.25 + accel_z c * 0.25];
               m = m[3 := base_thrust - accel_x c * 0.25 - accel_y c * 0.25 + accel_z c * 0.25]
           in Some (fold (\<lambda>i m. (let m = (if m ! i < 0 then m[i := 0] else m)
                                   in if m ! i > 1 then m[i := 1] else m))
                         [0..<4] m))
      | _ \<Rightarrow> motor_thrust)"

subsection \<open>The processing step of the main loop (main.c)\<close>

text \<open>
  The block of \<^verbatim>\<open>main\<close> that follows the acquisition: detection, then target read-out,
  then guidance, then motor mixing, each only if the step before returned \<open>0\<close>. The
  local \<^verbatim>\<open>target\<close> starts uninitialised in the source and is never read before it is
  written; it is zero here. The result is the sonar state, the guidance command and
  the motor thrusts after the step.
\<close>

definition local_target :: target_info_t where
  "local_target = \<lparr>range_cm = 0, azimuth_rad = 0, elevation_rad = 0, confidence = 0, valid = False\<rparr>"

definition main_process_sonar ::
  "(real list \<Rightarrow> nat \<Rightarrow> real list \<Rightarrow> nat \<Rightarrow> real list \<Rightarrow> real list)
     \<Rightarrow> sonar_state_t \<Rightarrow> vehicle_state_t \<Rightarrow> guidance_cmd_t \<Rightarrow> real list
     \<Rightarrow> sonar_state_t \<times> guidance_cmd_t \<times> real list" where
  "main_process_sonar arm_correlate_f32 sonar_state vehicle_state guidance_cmd motor_thrust =
     (case sonar_detect_target arm_correlate_f32 (Some sonar_state) of
        (rc_detect, st) \<Rightarrow>
          if rc_detect = 0 then
            (case sonar_get_target st (Some local_target) of
               (rc_target, tgt) \<Rightarrow>
                 if rc_target = 0 then
                   (case guidance_compute (Some vehicle_state) tgt (Some guidance_cmd) of
                      (rc_guidance, cmd) \<Rightarrow>
                        if rc_guidance = 0
                        then (the st, the cmd, the (guidance_to_motors cmd (Some motor_thrust)))
                        else (the st, the cmd, motor_thrust))
                 else (the st, guidance_cmd, motor_thrust))
          else (the st, guidance_cmd, motor_thrust))"

text \<open>
  Two states used in the examples below, as they are after the matched filter. In the
  first, each channel has two samples and the reference channel holds a negative
  sample of magnitude 8 followed by 1, the other channels being silent. In the second,
  each channel has 118 samples and the reference channel holds a single spike of 4000
  at index 117.
\<close>

definition negative_peak_state :: sonar_state_t where
  "negative_peak_state =
     \<lparr>tx_chirp = [], matched_filter = [],
      rx_buffer = [[- 8, 1], [0, 0], [0, 0], [0, 0]],
      filtered_buffer = [[- 8, 1], [0, 0], [0, 0], [0, 0]],
      beamformed_output = [0, 0],
      target = \<lparr>range_cm = 120, azimuth_rad = 0, elevation_rad = 0, confidence = 1, valid = True\<rparr>,
      processing_complete = False, sample_count = 2\<rparr>"

definition spike_state :: sonar_state_t where
  "spike_state =
     \<lparr>tx_chirp = [], matched_filter = [],
      rx_buffer = [replicate 117 0 @ [4000], replicate 118 0, replicate 118 0, replicate 118 0],
      filtered_buffer = [replicate 117 0 @ [4000], replicate 118 0, replicate 118 0, replicate 118 0],
      beamformed_output = replicate 118 0,
      target = \<lparr>range_cm = 0, azimuth_rad = 0, elevation_rad = 0, confidence = 0, valid = False\<rparr>,
      processing_complete = False, sample_count = 118\<rparr>"

section \<open>Verified properties\<close>

text \<open>
  C9. For a non-null state and a non-null output structure: when the stored target
  estimate is marked invalid the call returns the nonzero code \<open>-2\<close> and the output
  structure is left as it was; when it is marked valid the stored estimate is copied
  into the output and the call returns \<open>0\<close>; the return code is \<open>0\<close> only in the valid
  case. Whatever the arguments, null pointers included, a nonzero return leaves the
  output as it was.
\<close>

theorem sonar_get_target_gate:
  "(\<not> valid (target s) \<longrightarrow> sonar_get_target (Some s) (Some out) = (-2, Some out)) \<and>
   (valid (target s) \<longrightarrow> sonar_get_target (Some s) (Some out) = (0, Some (target s))) \<and>
   (fst (sonar_get_target (Some s) (Some out)) = 0 \<longleftrightarrow> valid (target s)) \<and>
   (fst (sonar_get_target state target_out) \<noteq> 0 \<longrightarrow>
      snd (sonar_get_target state target_out) = target_out)"
  by (simp add: sonar_get_target_def split: option.splits)

theorem sonar_get_target_gate_witness:
  "\<not> valid (target \<lparr>tx_chirp = [], matched_filter = [], rx_buffer = [], filtered_buffer = [],
        beamformed_output = [],
        target = \<lparr>range_cm = 120, azimuth_rad = 0, elevation_rad = 0, confidence = 1, valid = False\<rparr>,
        processing_complete = False, sample_count = 0\<rparr>) \<and>
   sonar_get_target
     (Some \<lparr>tx_chirp = [], matched_filter = [], rx_buffer = [], filtered_buffer = [],
        beamformed_output = [],
        target = \<lparr>range_cm = 120, azimuth_rad = 0, elevation_rad = 0, confidence = 1, valid = False\<rparr>,
        processing_complete = False, sample_count = 0\<rparr>)
     (Some \<lparr>range_cm = 7, azimuth_rad = 1, elevation_rad = 2, confidence = 0, valid = True\<rparr>)
   = (-2, Some \<lparr>range_cm = 7, azimuth_rad = 1, elevation_rad = 2, confidence = 0, valid = True\<rparr>)"
  using sonar_get_target_gate
    [of "\<lparr>tx_chirp = [], matched_filter = [], rx_buffer = [], filtered_buffer = [],
        beamformed_output = [],
        target = \<lparr>range_cm = 120, azimuth_rad = 0, elevation_rad = 0, confidence = 1, valid = False\<rparr>,
        processing_complete = False, sample_count = 0\<rparr>"
        "\<lparr>range_cm = 7, azimuth_rad = 1, elevation_rad = 2, confidence = 0, valid = True\<rparr>"]
  by simp

subsection \<open>Peak finding\<close>

declare find_peaks_loop.simps [simp del]

lemma find_peaks_loop_stop:
  "\<not> (i < len - 1 \<and> num_peaks < max_peaks) \<Longrightarrow>
   find_peaks_loop signal len threshold max_peaks i peaks num_peaks = (peaks, num_peaks)"
  by (subst find_peaks_loop.simps) auto

lemma find_peaks_loop_hit:
  "i < len - 1 \<and> num_peaks < max_peaks \<Longrightarrow>
   \<bar>signal ! i\<bar> > threshold \<and> \<bar>signal ! i\<bar> > \<bar>signal ! (i - 1)\<bar> \<and>
     \<bar>signal ! i\<bar> > \<bar>signal ! (i + 1)\<bar> \<Longrightarrow>
   find_peaks_loop signal len threshold max_peaks i peaks num_peaks =
   find_peaks_loop signal len threshold max_peaks (i + 1) (peaks[num_peaks := i]) (num_peaks + 1)"
  by (subst find_peaks_loop.simps) (auto simp: Let_def)

lemma find_peaks_loop_miss:
  "i < len - 1 \<and> num_peaks < max_peaks \<Longrightarrow>
   \<not> (\<bar>signal ! i\<bar> > threshold \<and> \<bar>signal ! i\<bar> > \<bar>signal ! (i - 1)\<bar> \<and>
     \<bar>signal ! i\<bar> > \<bar>signal ! (i + 1)\<bar>) \<Longrightarrow>
   find_peaks_loop signal len threshold max_peaks i peaks num_peaks =
   find_peaks_loop signal len threshold max_peaks (i + 1) peaks num_peaks"
  by (subst find_peaks_loop.simps) (auto simp: Let_def)

lemma find_peaks_loop_inv:
  "find_peaks_loop signal len threshold max_peaks i peaks n = (peaks', n') \<Longrightarrow>
   n \<le> max_peaks \<Longrightarrow> max_peaks \<le> length peaks \<Longrightarrow> 1 \<le> i \<Longrightarrow>
   (\<forall>k<n. strict_local_peak signal len threshold (peaks ! k) \<and> peaks ! k < i) \<Longrightarrow>
   (\<forall>k l. k < l \<and> l < n \<longrightarrow> peaks ! k < peaks ! l) \<Longrightarrow>
   n' \<le> max_peaks \<and> length peaks' = length peaks \<and>
   (\<forall>k<n'. strict_local_peak signal len threshold (peaks' ! k)) \<and>
   (\<forall>k l. k < l \<and> l < n' \<longrightarrow> peaks' ! k < peaks' ! l)"
proof (induction signal len threshold max_peaks i peaks n rule: find_peaks_loop.induct)
  case (1 signal len threshold max_peaks i peaks num_peaks)
  show ?case
  proof (cases "i < len - 1 \<and> num_peaks < max_peaks")
    case False
    then have "find_peaks_loop signal len threshold max_peaks i peaks num_peaks = (peaks, num_peaks)"
      by (rule find_peaks_loop_stop)
    with "1.prems" show ?thesis
      by auto
  next
    case True
    define val where "val = \<bar>signal ! i\<bar>"
    show ?thesis
    proof (cases "val > threshold \<and> val > \<bar>signal ! (i - 1)\<bar> \<and> val > \<bar>signal ! (i + 1)\<bar>")
      case hit: True
      have run: "find_peaks_loop signal len threshold max_peaks (i + 1)
                   (peaks[num_peaks := i]) (num_peaks + 1) = (peaks', n')"
        using "1.prems"(1) find_peaks_loop_hit[OF True hit[unfolded val_def]] by simp
      have pk: "strict_local_peak signal len threshold i"
        using True hit "1.prems"(4) by (auto simp: strict_local_peak_def val_def)
      have a: "\<forall>k<num_peaks + 1. strict_local_peak signal len threshold (peaks[num_peaks := i] ! k)
                 \<and> peaks[num_peaks := i] ! k < i + 1"
        using "1.prems"(5) pk True "1.prems"(3)
        by (auto simp: nth_list_update less_Suc_eq)
      have b: "\<forall>k l. k < l \<and> l < num_peaks + 1 \<longrightarrow>
                 peaks[num_peaks := i] ! k < peaks[num_peaks := i] ! l"
        using "1.prems"(5,6) True "1.prems"(3)
        by (auto simp: nth_list_update less_Suc_eq)
      from "1.IH"(1)[OF True val_def hit run _ _ _ a b] True "1.prems"(3)
      show ?thesis by simp
    next
      case miss: False
      have run: "find_peaks_loop signal len threshold max_peaks (i + 1) peaks num_peaks = (peaks', n')"
        using "1.prems"(1) find_peaks_loop_miss[OF True miss[unfolded val_def]] by simp
      have a: "\<forall>k<num_peaks. strict_local_peak signal len threshold (peaks ! k) \<and> peaks ! k < i + 1"
        using "1.prems"(5) by auto
      from "1.IH"(2)[OF True val_def miss run "1.prems"(2,3) _ a "1.prems"(6)]
      show ?thesis by simp
    qed
  qed
qed


text \<open>
  C10. For a non-null signal of length at least 1, any threshold, and an output array
  with room for \<open>max_peaks\<close> entries, signal\_find\_peaks returns \<open>0\<close>; the reported
  peak indices are strictly increasing, each lies in the interior \<open>[1, len - 2]\<close>,
  each has an absolute sample value above the threshold and strictly above both
  neighbours' absolute values, and the reported count is at most \<open>max_peaks\<close>.
\<close>

theorem signal_find_peaks_interior:
  assumes "1 \<le> len" and "max_peaks \<le> length peaks"
  shows "\<exists>peaks' n.
           signal_find_peaks (Some signal) len threshold (Some peaks) max_peaks (Some n0)
             = (0, Some peaks', Some n) \<and>
           n \<le> max_peaks \<and>
           (\<forall>k<n. 1 \<le> peaks' ! k \<and> peaks' ! k + 2 \<le> len \<and>
                  \<bar>signal ! (peaks' ! k)\<bar> > threshold \<and>
                  \<bar>signal ! (peaks' ! k)\<bar> > \<bar>signal ! (peaks' ! k - 1)\<bar> \<and>
                  \<bar>signal ! (peaks' ! k)\<bar> > \<bar>signal ! (peaks' ! k + 1)\<bar>) \<and>
           (\<forall>k l. k < l \<and> l < n \<longrightarrow> peaks' ! k < peaks' ! l)"
proof -
  obtain peaks' n where run: "find_peaks_loop signal len threshold max_peaks 1 peaks 0 = (peaks', n)"
    by (cases "find_peaks_loop signal len threshold max_peaks 1 peaks 0") auto
  have inv: "n \<le> max_peaks \<and> length peaks' = length peaks \<and>
      (\<forall>k<n. strict_local_peak signal len threshold (peaks' ! k)) \<and>
      (\<forall>k l. k < l \<and> l < n \<longrightarrow> peaks' ! k < peaks' ! l)"
    by (rule find_peaks_loop_inv[OF run]) (use assms in simp_all)
  have res: "signal_find_peaks (Some signal) len threshold (Some peaks) max_peaks (Some n0)
      = (0, Some peaks', Some n)"
    using assms(1) run by (simp add: signal_find_peaks_def)
  show ?thesis
    using res inv unfolding strict_local_peak_def by blast
qed

theorem signal_find_peaks_interior_witness:
  "(1::nat) \<le> 5 \<and> (3::nat) \<le> length [0, 0, 0 :: nat] \<and>
   (\<exists>peaks' n.
      signal_find_peaks (Some [0, 5, 1, 7, 2]) 5 3 (Some [0, 0, 0]) 3 (Some 0)
        = (0, Some peaks', Some n) \<and>
      n \<le> 3 \<and>
      (\<forall>k<n. 1 \<le> peaks' ! k \<and> peaks' ! k + 2 \<le> 5 \<and>
             \<bar>[0, 5, 1, 7, 2] ! (peaks' ! k)\<bar> > (3::real) \<and>
             \<bar>[0, 5, 1, 7, 2] ! (peaks' ! k)\<bar> > \<bar>[0, 5, 1, 7, 2 :: real] ! (peaks' ! k - 1)\<bar> \<and>
             \<bar>[0, 5, 1, 7, 2] ! (peaks' ! k)\<bar> > \<bar>[0, 5, 1, 7, 2 :: real] ! (peaks' ! k + 1)\<bar>) \<and>
      (\<forall>k l. k < l \<and> l < n \<longrightarrow> peaks' ! k < peaks' ! l))"
  using signal_find_peaks_interior [of 5 3 "[0, 0, 0]" "[0, 5, 1, 7, 2]" 3 0]
  by simp

subsection \<open>Clustering\<close>

declare cluster_merge_loop.simps [simp del] cluster_loop.simps [simp del]

lemma cluster_loop_bound:
  "cluster_loop peaks num_peaks signal sample_rate max_clusters i clusters num_clusters processed
     = (clusters', n) \<Longrightarrow>
   num_clusters \<le> max_clusters \<Longrightarrow> n \<le> max_clusters"
proof (induction peaks num_peaks signal sample_rate max_clusters i clusters num_clusters processed
        rule: cluster_loop.induct)
  case (1 peaks num_peaks signal sample_rate max_clusters i clusters num_clusters processed)
  show ?case
  proof (cases "i < num_peaks \<and> num_clusters < max_clusters")
    case False
    then have "cluster_loop peaks num_peaks signal sample_rate max_clusters i clusters
                 num_clusters processed = (clusters, num_clusters)"
      by (subst cluster_loop.simps) auto
    with "1.prems" show ?thesis by simp
  next
    case True
    show ?thesis
    proof (cases "processed ! i")
      case skip: True
      have "cluster_loop peaks num_peaks signal sample_rate max_clusters (i + 1) clusters
              num_clusters processed = (clusters', n)"
        using "1.prems"(1) True skip by (subst (asm) cluster_loop.simps) simp
      from "1.IH"(1)[OF True skip this "1.prems"(2)] show ?thesis .
    next
      case fresh: False
      obtain cluster processed' where
        inner: "cluster_merge_loop peaks num_peaks signal sample_rate (i + 1)
                  ((clusters ! num_clusters)
                     \<lparr>cl_range_cm := (real (peaks ! i) * SPEED_OF_SOUND * 100)
                                     / (2 * real sample_rate),
                      cl_power := \<bar>signal ! (peaks ! i)\<bar>,
                      cl_sample_count := 1\<rparr>)
                  (processed[i := True]) = (cluster, processed')"
        by (cases "cluster_merge_loop peaks num_peaks signal sample_rate (i + 1)
                  ((clusters ! num_clusters)
                     \<lparr>cl_range_cm := (real (peaks ! i) * SPEED_OF_SOUND * 100)
                                     / (2 * real sample_rate),
                      cl_power := \<bar>signal ! (peaks ! i)\<bar>,
                      cl_sample_count := 1\<rparr>)
                  (processed[i := True])") auto
      have "cluster_loop peaks num_peaks signal sample_rate max_clusters (i + 1)
              (clusters[num_clusters := cluster]) (num_clusters + 1) processed' = (clusters', n)"
        using "1.prems"(1) True fresh inner by (subst (asm) cluster_loop.simps) simp
      with "1.IH"(2)[OF True fresh inner[symmetric]] True show ?thesis by auto
    qed
  qed
qed

lemma cluster_merge_loop_step:
  "j < num_peaks \<Longrightarrow> \<not> processed ! j \<Longrightarrow>
   cluster_merge_loop peaks num_peaks signal sample_rate j cluster processed =
     (if \<bar>peak_range_cm (peaks ! j) sample_rate - cl_range_cm cluster\<bar>
           < real MIN_TARGET_SEPARATION_CM
      then cluster_merge_loop peaks num_peaks signal sample_rate (j + 1)
             (merge_peak cluster (peak_range_cm (peaks ! j) sample_rate) \<bar>signal ! (peaks ! j)\<bar>)
             (processed[j := True])
      else cluster_merge_loop peaks num_peaks signal sample_rate (j + 1) cluster processed)"
  by (subst cluster_merge_loop.simps) (simp add: Let_def peak_range_cm_def merge_peak_def)

lemma two_peaks:
  "signal_cluster_detections (Some [p, q]) 2 (Some signal) len sample_rate
       (Some (c0 # c1 # rest)) max_clusters (Some n0) True =
     (if max_clusters = 0 then (0, Some (c0 # c1 # rest), Some 0)
      else if \<bar>peak_range_cm q sample_rate - peak_range_cm p sample_rate\<bar> < 20 then
        (0, Some (c0\<lparr>cl_range_cm := (peak_range_cm p sample_rate + peak_range_cm q sample_rate) / 2,
                      cl_power := max \<bar>signal ! p\<bar> \<bar>signal ! q\<bar>,
                      cl_sample_count := 2\<rparr> # c1 # rest), Some 1)
      else if max_clusters = 1 then
        (0, Some (c0\<lparr>cl_range_cm := peak_range_cm p sample_rate, cl_power := \<bar>signal ! p\<bar>,
                      cl_sample_count := 1\<rparr> # c1 # rest), Some 1)
      else
        (0, Some (c0\<lparr>cl_range_cm := peak_range_cm p sample_rate, cl_power := \<bar>signal ! p\<bar>,
                      cl_sample_count := 1\<rparr>
                  # c1\<lparr>cl_range_cm := peak_range_cm q sample_rate, cl_power := \<bar>signal ! q\<bar>,
                        cl_sample_count := 1\<rparr> # rest), Some 2))"
  by (simp add: signal_cluster_detections_def cluster_loop.simps cluster_merge_loop.simps
        peak_range_cm_def MIN_TARGET_SEPARATION_CM_def Let_def numeral_2_eq_2)

text \<open>
  C7 (as amended). For a positive sample rate: each peak index is converted to a range
  by \<open>peakIndex \<sqdot> speedOfSound \<sqdot> 100 / (2 \<sqdot> sampleRate)\<close>; a later unprocessed peak merges
  into the current cluster exactly when its range differs from the cluster's running
  mean range by less than 20 cm, and then the cluster range becomes the running weighted
  mean and the cluster power the maximum observed; the number of clusters never exceeds
  \<open>max_clusters\<close>; and for an input of exactly two peaks with room for two clusters,
  the peaks end in one cluster when their ranges differ by less than 20 cm and in two
  clusters otherwise.
\<close>

theorem cluster_detections_greedy:
  assumes "0 < sample_rate"
  shows
   "(\<forall>j cluster processed. j < num_peaks \<and> \<not> processed ! j \<longrightarrow>
       cluster_merge_loop peaks num_peaks signal sample_rate j cluster processed =
         (if \<bar>peak_range_cm (peaks ! j) sample_rate - cl_range_cm cluster\<bar>
               < real MIN_TARGET_SEPARATION_CM
          then cluster_merge_loop peaks num_peaks signal sample_rate (j + 1)
                 (cluster\<lparr>cl_range_cm :=
                             (cl_range_cm cluster * real (cl_sample_count cluster)
                              + peak_range_cm (peaks ! j) sample_rate)
                             / real (cl_sample_count cluster + 1),
                          cl_power := max (cl_power cluster) \<bar>signal ! (peaks ! j)\<bar>,
                          cl_sample_count := cl_sample_count cluster + 1\<rparr>)
                 (processed[j := True])
          else cluster_merge_loop peaks num_peaks signal sample_rate (j + 1) cluster processed)) \<and>
    (0 < num_peaks \<longrightarrow>
       (\<exists>clusters' n.
          signal_cluster_detections (Some peaks) num_peaks (Some signal) len sample_rate
            (Some clusters) max_clusters (Some n0) True = (0, Some clusters', Some n) \<and>
          n \<le> max_clusters)) \<and>
    (2 \<le> max_clusters \<longrightarrow>
       signal_cluster_detections (Some [p, q]) 2 (Some signal) len sample_rate
         (Some (c0 # c1 # rest)) max_clusters (Some n0) True =
       (if \<bar>peak_range_cm q sample_rate - peak_range_cm p sample_rate\<bar>
             < real MIN_TARGET_SEPARATION_CM
        then (0, Some (c0\<lparr>cl_range_cm := (peak_range_cm p sample_rate
                                           + peak_range_cm q sample_rate) / 2,
                           cl_power := max \<bar>signal ! p\<bar> \<bar>signal ! q\<bar>,
                           cl_sample_count := 2\<rparr> # c1 # rest), Some 1)
        else (0, Some (c0\<lparr>cl_range_cm := peak_range_cm p sample_rate,
                           cl_power := \<bar>signal ! p\<bar>, cl_sample_count := 1\<rparr>
                       # c1\<lparr>cl_range_cm := peak_range_cm q sample_rate,
                             cl_power := \<bar>signal ! q\<bar>, cl_sample_count := 1\<rparr> # rest), Some 2)))"
proof (intro conjI allI impI)
  fix j cluster processed
  assume "j < num_peaks \<and> \<not> processed ! j"
  then show "cluster_merge_loop peaks num_peaks signal sample_rate j cluster processed =
         (if \<bar>peak_range_cm (peaks ! j) sample_rate - cl_range_cm cluster\<bar>
               < real MIN_TARGET_SEPARATION_CM
          then cluster_merge_loop peaks num_peaks signal sample_rate (j + 1)
                 (cluster\<lparr>cl_range_cm :=
                             (cl_range_cm cluster * real (cl_sample_count cluster)
                              + peak_range_cm (peaks ! j) sample_rate)
                             / real (cl_sample_count cluster + 1),
                          cl_power := max (cl_power cluster) \<bar>signal ! (peaks ! j)\<bar>,
                          cl_sample_count := cl_sample_count cluster + 1\<rparr>)
                 (processed[j := True])
          else cluster_merge_loop peaks num_peaks signal sample_rate (j + 1) cluster processed)"
    using cluster_merge_loop_step[of j num_peaks processed peaks signal sample_rate cluster]
    by (simp add: merge_peak_def)
next
  assume np: "0 < num_peaks"
  obtain clusters' n where
    run: "cluster_loop peaks num_peaks signal sample_rate max_clusters 0 clusters 0
            (replicate num_peaks False) = (clusters', n)"
    by (cases "cluster_loop peaks num_peaks signal sample_rate max_clusters 0 clusters 0
            (replicate num_peaks False)") auto
  have "n \<le> max_clusters"
    by (rule cluster_loop_bound[OF run]) simp
  moreover have "signal_cluster_detections (Some peaks) num_peaks (Some signal) len sample_rate
            (Some clusters) max_clusters (Some n0) True = (0, Some clusters', Some n)"
    using np run by (simp add: signal_cluster_detections_def)
  ultimately show "\<exists>clusters' n.
          signal_cluster_detections (Some peaks) num_peaks (Some signal) len sample_rate
            (Some clusters) max_clusters (Some n0) True = (0, Some clusters', Some n) \<and>
          n \<le> max_clusters"
    by blast
next
  assume "2 \<le> max_clusters"
  then show "signal_cluster_detections (Some [p, q]) 2 (Some signal) len sample_rate
         (Some (c0 # c1 # rest)) max_clusters (Some n0) True =
       (if \<bar>peak_range_cm q sample_rate - peak_range_cm p sample_rate\<bar>
             < real MIN_TARGET_SEPARATION_CM
        then (0, Some (c0\<lparr>cl_range_cm := (peak_range_cm p sample_rate
                                           + peak_range_cm q sample_rate) / 2,
                           cl_power := max \<bar>signal ! p\<bar> \<bar>signal ! q\<bar>,
                           cl_sample_count := 2\<rparr> # c1 # rest), Some 1)
        else (0, Some (c0\<lparr>cl_range_cm := peak_range_cm p sample_rate,
                           cl_power := \<bar>signal ! p\<bar>, cl_sample_count := 1\<rparr>
                       # c1\<lparr>cl_range_cm := peak_range_cm q sample_rate,
                             cl_power := \<bar>signal ! q\<bar>, cl_sample_count := 1\<rparr> # rest), Some 2))"
    by (simp add: two_peaks MIN_TARGET_SEPARATION_CM_def)
qed

theorem cluster_detections_greedy_witness:
  "(0::nat) < 200000 \<and> (2::nat) \<le> 5 \<and>
   \<bar>peak_range_cm 300 200000 - peak_range_cm 100 200000\<bar> < real MIN_TARGET_SEPARATION_CM \<and>
   signal_cluster_detections (Some [100, 300]) 2 (Some (replicate 400 1)) 400 200000
     (Some [local_cluster, local_cluster, local_cluster, local_cluster, local_cluster])
     5 (Some 0) True =
   (0, Some [local_cluster\<lparr>cl_range_cm := (peak_range_cm 100 200000 + peak_range_cm 300 200000) / 2,
                           cl_power := 1, cl_sample_count := 2\<rparr>,
             local_cluster, local_cluster, local_cluster, local_cluster], Some 1)"
  using cluster_detections_greedy [where sample_rate = 200000 and max_clusters = 5 and p = 100 and q = 300
          and signal = "replicate 400 1" and len = 400 and ?n0.0 = 0
          and ?c0.0 = local_cluster and ?c1.0 = local_cluster
          and rest = "[local_cluster, local_cluster, local_cluster]"]
  by (simp add: peak_range_cm_def SPEED_OF_SOUND_def MIN_TARGET_SEPARATION_CM_def)

text \<open>
  C7 as stated fails for three peaks, at the sample rate of the firmware (200 kHz). The
  peaks 100, 320, 440 end in a single cluster of three although the ranges of 100 and
  440 differ by more than 20 cm; the peaks 100, 300, 500 give two clusters, the second
  holding 500 alone, although the ranges of 300 and 500 differ by less than 20 cm.
\<close>

theorem cluster_pairwise_counterexample:
  "signal_cluster_detections (Some [100, 320, 440]) 3 (Some (replicate 600 1)) 600 200000
     (Some [local_cluster, local_cluster, local_cluster, local_cluster, local_cluster])
     5 (Some 0) True =
   (0, Some [\<lparr>cl_range_cm = 14749 / 600, cl_azimuth_rad = 0, cl_elevation_rad = 0,
               cl_power = 1, cl_sample_count = 3\<rparr>,
             local_cluster, local_cluster, local_cluster, local_cluster], Some 1) \<and>
   \<bar>peak_range_cm 440 200000 - peak_range_cm 100 200000\<bar> > real MIN_TARGET_SEPARATION_CM \<and>
   signal_cluster_detections (Some [100, 300, 500]) 3 (Some (replicate 600 1)) 600 200000
     (Some [local_cluster, local_cluster, local_cluster, local_cluster, local_cluster])
     5 (Some 0) True =
   (0, Some [\<lparr>cl_range_cm = 343 / 20, cl_azimuth_rad = 0, cl_elevation_rad = 0,
               cl_power = 1, cl_sample_count = 2\<rparr>,
             \<lparr>cl_range_cm = 343 / 8, cl_azimuth_rad = 0, cl_elevation_rad = 0,
               cl_power = 1, cl_sample_count = 1\<rparr>,
             local_cluster, local_cluster, local_cluster], Some 2) \<and>
   \<bar>peak_range_cm 500 200000 - peak_range_cm 300 200000\<bar> < real MIN_TARGET_SEPARATION_CM"
  by (simp add: signal_cluster_detections_def cluster_loop.simps cluster_merge_loop.simps
        peak_range_cm_def SPEED_OF_SOUND_def MIN_TARGET_SEPARATION_CM_def local_cluster_def
        Let_def)

subsection \<open>Multi-target detection\<close>

text \<open>
  C8. signal\_detect\_multi\_target returns \<open>-1\<close> for a null input signal and for a
  zero length; when the peak search over the adaptive threshold reports zero peaks it
  returns \<open>0\<close> with \<open>num_targets = 0\<close> and the result marked not valid.
\<close>

theorem detect_multi_target_failures:
  "signal_detect_multi_target None len sample_rate result calloc_ok = (-1, result) \<and>
   signal_detect_multi_target (Some sig) 0 sample_rate result calloc_ok = (-1, result) \<and>
   (0 < len \<and>
    snd (find_peaks_loop sig len
           (arm_mean_f32 sig len + ADAPTIVE_THRESHOLD_FACTOR * arm_std_f32 sig len)
           (MAX_TARGETS * 2) 1 (replicate (MAX_TARGETS * 2) 0) 0) = 0
    \<longrightarrow> signal_detect_multi_target (Some sig) len sample_rate (Some res) calloc_ok
          = (0, Some (res\<lparr>num_targets := 0, result_valid := False\<rparr>)))"
  by (auto simp: signal_detect_multi_target_def signal_adaptive_threshold_def
        signal_find_peaks_def Let_def split: option.splits prod.splits)

theorem detect_multi_target_failures_witness:
  "0 < (3::nat) \<and>
   snd (find_peaks_loop [1, 1, 1] 3
          (arm_mean_f32 [1, 1, 1] 3 + ADAPTIVE_THRESHOLD_FACTOR * arm_std_f32 [1, 1, 1] 3)
          (MAX_TARGETS * 2) 1 (replicate (MAX_TARGETS * 2) 0) 0) = 0 \<and>
   signal_detect_multi_target (Some [1, 1, 1]) 3 200000
     (Some \<lparr>targets = replicate 5 local_cluster, num_targets = 4, result_valid = True\<rparr>) True
   = (0, Some \<lparr>targets = replicate 5 local_cluster, num_targets = 0, result_valid = False\<rparr>)"
  using detect_multi_target_failures [of 3 200000
          "Some \<lparr>targets = replicate 5 local_cluster, num_targets = 4, result_valid = True\<rparr>"
          True "[1, 1, 1]"
          "\<lparr>targets = replicate 5 local_cluster, num_targets = 4, result_valid = True\<rparr>"]
  by (simp add: find_peaks_loop.simps arm_mean_f32_def arm_std_f32_def
        ADAPTIVE_THRESHOLD_FACTOR_def MAX_TARGETS_def)

subsection \<open>Chirp generation\<close>

declare chirp_loop.simps [simp del]

lemma chirp_loop_step:
  "i < len \<Longrightarrow>
   chirp_loop chirp len fs f0 chirp_rate i =
     chirp_loop (chirp[i := (if len - 1 = 0 then NaN
          else Finite (cos (2 * pi * (f0 * (real i / fs) + 0.5 * chirp_rate * (real i / fs) * (real i / fs)))
                   * (0.5 * (1 - cos (2 * pi * real i / real (len - 1))))))])
       len fs f0 chirp_rate (i + 1)"
  by (subst chirp_loop.simps) (simp only: Let_def if_True)

lemma chirp_loop_stop: "\<not> i < len \<Longrightarrow> chirp_loop chirp len fs f0 chirp_rate i = chirp"
  by (subst chirp_loop.simps) simp

lemma chirp_loop_length: "length (chirp_loop chirp len fs f0 chirp_rate i) = length chirp"
proof (induction chirp len fs f0 chirp_rate i rule: chirp_loop.induct)
  case (1 chirp len fs f0 chirp_rate i)
  show ?case
  proof (cases "i < len")
    case True
    show ?thesis
      unfolding chirp_loop_step[OF True]
      using "1.IH"[OF True refl refl] by simp
  next
    case False
    then show ?thesis by (simp add: chirp_loop_stop)
  qed
qed

lemma chirp_loop_nth:
  "len \<le> length chirp \<Longrightarrow>
   chirp_loop chirp len fs f0 chirp_rate i ! k =
     (if i \<le> k \<and> k < len then
        (if len - 1 = 0 then NaN
         else Finite (cos (2 * pi * (f0 * (real k / fs) + 0.5 * chirp_rate * (real k / fs) * (real k / fs)))
                      * (0.5 * (1 - cos (2 * pi * real k / real (len - 1))))))
      else chirp ! k)"
proof (induction chirp len fs f0 chirp_rate i rule: chirp_loop.induct)
  case (1 chirp len fs f0 chirp_rate i)
  show ?case
  proof (cases "i < len")
    case True
    show ?thesis
      unfolding chirp_loop_step[OF True]
      using "1.IH"[OF True refl refl] "1.prems" True
      by (auto simp: Let_def nth_list_update)
  next
    case False
    then show ?thesis by (auto simp: chirp_loop_stop)
  qed
qed

lemma chirp_rest:
  assumes "len \<le> length chirp"
  shows "drop len (sonar_generate_chirp chirp len) = drop len chirp"
proof -
  have unf: "sonar_generate_chirp chirp len =
      chirp_loop chirp len (real SONAR_SAMPLE_RATE) (real SONAR_CHIRP_F0)
        ((real SONAR_CHIRP_F1 - real SONAR_CHIRP_F0) / (real len / real SONAR_SAMPLE_RATE)) 0"
    by (simp only: sonar_generate_chirp_def Let_def)
  have rest: "sonar_generate_chirp chirp len ! k = chirp ! k" if "len \<le> k" for k
    unfolding unf chirp_loop_nth[OF assms] using that by simp
  have len_eq: "length (sonar_generate_chirp chirp len) = length chirp"
    unfolding unf by (rule chirp_loop_length)
  show ?thesis
    using assms len_eq by (intro nth_equalityI) (simp_all add: rest)
qed

lemma chirp_cell_spec:
  assumes "2 \<le> len"
  shows "cos (2 * pi * (f0 * (real i / fs) + 0.5 * ((f1 - f0) / (real len / fs)) * (real i / fs) * (real i / fs)))
           * (0.5 * (1 - cos (2 * pi * real i / real (len - 1))))
         = chirp_spec len fs f0 f1 i"
proof -
  have len1: "real (len - 1) = real len - 1"
    using assms by (simp add: of_nat_diff)
  have sq: "0.5 * ((f1 - f0) / (real len / fs)) * (real i / fs) * (real i / fs)
            = 0.5 * ((f1 - f0) / (real len / fs)) * (real i / fs)\<^sup>2"
    by (simp only: power2_eq_square mult.assoc)
  show ?thesis
    unfolding chirp_spec_def Let_def len1 sq ..
qed

text \<open>
  C6. For every length of at least 2 (within the buffer), every sample \<open>i\<close> in
  \<open>[0, length)\<close> of the generated chirp equals \<open>cos (2\<pi> (f0 t + 0.5 k t\<^sup>2))\<close> times the
  Hann window value \<open>0.5 (1 - cos (2\<pi> i / (length - 1)))\<close>, with \<open>t = i / sampleRate\<close>,
  \<open>k = (f1 - f0) / duration\<close> and \<open>duration = length / sampleRate\<close>, at the
  constants of the firmware (200 kHz, 38 kHz, 42 kHz); exactly \<open>length\<close> samples are
  written and the rest of the buffer keeps its contents.
\<close>

theorem chirp_samples:
  assumes "2 \<le> len" and "len \<le> length chirp"
  shows "length (sonar_generate_chirp chirp len) = length chirp \<and>
         take len (sonar_generate_chirp chirp len) =
           map (\<lambda>i. Finite (chirp_spec len (real SONAR_SAMPLE_RATE)
                               (real SONAR_CHIRP_F0) (real SONAR_CHIRP_F1) i)) [0..<len] \<and>
         length (take len (sonar_generate_chirp chirp len)) = len \<and>
         drop len (sonar_generate_chirp chirp len) = drop len chirp"
proof -
  have unf: "sonar_generate_chirp chirp len =
      chirp_loop chirp len (real SONAR_SAMPLE_RATE) (real SONAR_CHIRP_F0)
        ((real SONAR_CHIRP_F1 - real SONAR_CHIRP_F0) / (real len / real SONAR_SAMPLE_RATE)) 0"
    by (simp only: sonar_generate_chirp_def Let_def)
  have a: "length (sonar_generate_chirp chirp len) = length chirp"
    unfolding unf by (rule chirp_loop_length)
  have ne: "len - 1 \<noteq> 0" using assms(1) by simp
  have cell: "sonar_generate_chirp chirp len ! k =
      Finite (chirp_spec len (real SONAR_SAMPLE_RATE) (real SONAR_CHIRP_F0) (real SONAR_CHIRP_F1) k)"
    if "k < len" for k
  proof -
    have in_range: "0 \<le> k \<and> k < len" using that by simp
    show ?thesis
      unfolding unf chirp_loop_nth[OF assms(2)]
      by (simp only: in_range ne if_True if_False simp_thms chirp_cell_spec[OF assms(1)])
  qed
  have b: "take len (sonar_generate_chirp chirp len) =
           map (\<lambda>i. Finite (chirp_spec len (real SONAR_SAMPLE_RATE)
                               (real SONAR_CHIRP_F0) (real SONAR_CHIRP_F1) i)) [0..<len]"
    using assms(2) a by (intro nth_equalityI) (simp_all add: cell)
  have c: "drop len (sonar_generate_chirp chirp len) = drop len chirp"
    by (rule chirp_rest[OF assms(2)])
  show ?thesis using a b c assms(2) by simp
qed

theorem chirp_samples_witness:
  "(2::nat) \<le> 2 \<and> 2 \<le> length [Finite 0, Finite 0, Finite 9] \<and>
   length (sonar_generate_chirp [Finite 0, Finite 0, Finite 9] 2) = 3 \<and>
   take 2 (sonar_generate_chirp [Finite 0, Finite 0, Finite 9] 2) =
     [Finite (chirp_spec 2 (real SONAR_SAMPLE_RATE) (real SONAR_CHIRP_F0) (real SONAR_CHIRP_F1) 0),
      Finite (chirp_spec 2 (real SONAR_SAMPLE_RATE) (real SONAR_CHIRP_F0) (real SONAR_CHIRP_F1) 1)] \<and>
   drop 2 (sonar_generate_chirp [Finite 0, Finite 0, Finite 9] 2) = [Finite 9]"
  using chirp_samples [of 2 "[Finite 0, Finite 0, Finite 9]"]
  by (simp add: upt_rec)

text \<open>
  C5 (as amended). sonar\_generate\_chirp checks none of its arguments and has no
  failure indication. With length \<open>0\<close> it leaves the buffer as it was; with any length
  within the buffer it keeps the buffer's size and leaves every cell from index
  \<open>length\<close> on untouched. The frequencies are the constants 38 kHz and 42 kHz, so
  \<open>f1 \<le> f0\<close> does not arise.
\<close>

theorem chirp_no_validation:
  "sonar_generate_chirp chirp 0 = chirp \<and>
   (len \<le> length chirp \<longrightarrow>
      length (sonar_generate_chirp chirp len) = length chirp \<and>
      drop len (sonar_generate_chirp chirp len) = drop len chirp) \<and>
   SONAR_CHIRP_F0 < SONAR_CHIRP_F1"
proof (intro conjI impI)
  show "sonar_generate_chirp chirp 0 = chirp"
    by (simp add: sonar_generate_chirp_def chirp_loop_stop)
  show "length (sonar_generate_chirp chirp len) = length chirp"
    by (simp add: sonar_generate_chirp_def Let_def chirp_loop_length)
  show "drop len (sonar_generate_chirp chirp len) = drop len chirp" if "len \<le> length chirp"
    by (rule chirp_rest[OF that])
  show "SONAR_CHIRP_F0 < SONAR_CHIRP_F1"
    by (simp add: SONAR_CHIRP_F0_def SONAR_CHIRP_F1_def)
qed

theorem chirp_no_validation_witness:
  "(1::nat) \<le> length [Finite 7, Finite 8] \<and>
   length (sonar_generate_chirp [Finite 7, Finite 8] 1) = 2 \<and>
   drop 1 (sonar_generate_chirp [Finite 7, Finite 8] 1) = [Finite 8]"
  using chirp_no_validation [of "[Finite 7, Finite 8]" 1]
  by simp

text \<open>
  C5 as stated fails at length \<open>1\<close>, which is below 2: the call returns normally and
  the first cell of the buffer has been overwritten.
\<close>

theorem chirp_length_one_counterexample:
  "(1::nat) < 2 \<and>
   sonar_generate_chirp [Finite 7, Finite 8] 1 = [NaN, Finite 8] \<and>
   sonar_generate_chirp [Finite 7, Finite 8] 1 \<noteq> [Finite 7, Finite 8]"
  by (simp add: sonar_generate_chirp_def chirp_loop.simps)

subsection \<open>Guidance law\<close>

lemma sqrt_scaled:
  assumes "0 \<le> s"
  shows "sqrt ((x * s) * (x * s) + (y * s) * (y * s) + (z * s) * (z * s))
         = s * sqrt (x * x + y * y + z * z)"
proof -
  have "(x * s) * (x * s) + (y * s) * (y * s) + (z * s) * (z * s) = s\<^sup>2 * (x * x + y * y + z * z)"
    by (simp add: power2_eq_square algebra_simps)
  then show ?thesis
    using assms by (simp add: real_sqrt_mult)
qed

lemma GUIDANCE_MAX_ACCEL_pos: "0 < GUIDANCE_MAX_ACCEL"
  by (simp add: GUIDANCE_MAX_ACCEL_def)

lemma vnorm_vscale: "0 \<le> s \<Longrightarrow> vnorm (vscale s a) = s * vnorm a"
  using sqrt_scaled[of s "fst a" "fst (snd a)" "snd (snd a)"]
  by (cases a) (simp add: mult.commute)

lemma clamp_accel_norm:
  assumes "vnorm a > GUIDANCE_MAX_ACCEL"
  shows "vnorm (clamp_accel a) = GUIDANCE_MAX_ACCEL"
proof -
  have mpos: "0 < vnorm a" using assms GUIDANCE_MAX_ACCEL_pos by linarith
  then have s0: "0 \<le> GUIDANCE_MAX_ACCEL / vnorm a"
    using GUIDANCE_MAX_ACCEL_pos by simp
  have "vnorm (clamp_accel a) = (GUIDANCE_MAX_ACCEL / vnorm a) * vnorm a"
    using assms by (simp add: clamp_accel_def vnorm_vscale[OF s0])
  then show ?thesis using mpos by simp
qed

lemma clamp_accel_bound: "vnorm (clamp_accel a) \<le> GUIDANCE_MAX_ACCEL"
proof (cases "vnorm a > GUIDANCE_MAX_ACCEL")
  case True
  then show ?thesis by (simp add: clamp_accel_norm)
next
  case False
  then show ?thesis by (simp add: clamp_accel_def)
qed

lemma clamp_accel_direction:
  assumes "vnorm a > GUIDANCE_MAX_ACCEL"
  shows "vscale (1 / vnorm (clamp_accel a)) (clamp_accel a) = vscale (1 / vnorm a) a"
proof -
  have mpos: "0 < vnorm a" using assms GUIDANCE_MAX_ACCEL_pos by linarith
  have "vscale (1 / GUIDANCE_MAX_ACCEL) (vscale (GUIDANCE_MAX_ACCEL / vnorm a) a) = vscale (1 / vnorm a) a"
    using GUIDANCE_MAX_ACCEL_pos by (cases a) simp
  then show ?thesis
    using assms by (simp add: clamp_accel_norm) (simp add: clamp_accel_def)
qed

lemma guidance_compute_refines:
  assumes "valid t"
    and "\<not> vnorm (vsub (target_position t) (vehicle_position v)) < GUIDANCE_MIN_RANGE_CM / 100"
  shows "guidance_compute (Some v) (Some t) (Some c) =
           (0, Some (c\<lparr>accel_x := fst (clamp_accel (pn_accel v t)),
                       accel_y := fst (snd (clamp_accel (pn_accel v t))),
                       accel_z := snd (snd (clamp_accel (pn_accel v t))),
                       intercept := False\<rparr>))"
  using assms
  by (simp add: guidance_compute_def Let_def target_position_def vehicle_position_def
        vehicle_velocity_def pn_accel_def clamp_accel_def mult.commute)

lemma guidance_compute_intercept:
  assumes "valid t"
    and "vnorm (vsub (target_position t) (vehicle_position v)) < GUIDANCE_MIN_RANGE_CM / 100"
  shows "guidance_compute (Some v) (Some t) (Some c) =
           (0, Some (c\<lparr>intercept := True, accel_x := 0, accel_y := 0, accel_z := 0\<rparr>))"
  using assms
  by (simp add: guidance_compute_def Let_def target_position_def vehicle_position_def)

text \<open>
  C1. For every vehicle state and valid target estimate, guidance\_compute returns \<open>0\<close>
  and either, when the vehicle-to-target range is below the minimum intercept range
  (5 cm), sets \<open>intercept\<close> with zero acceleration, or clears \<open>intercept\<close> and outputs
  the proportional-navigation acceleration \<open>N \<sqdot> closingVel \<sqdot> losRate\<close>; when the
  magnitude of that acceleration exceeds \<open>maxAccel\<close> the output is the acceleration
  rescaled by \<open>maxAccel / magnitude\<close>, its magnitude is exactly \<open>maxAccel\<close> and its unit
  vector is the one of the unscaled acceleration; the output magnitude never exceeds
  \<open>maxAccel\<close>.
\<close>

theorem guidance_compute_pn_clamped:
  assumes "valid t"
  shows "if vnorm (vsub (target_position t) (vehicle_position v)) < GUIDANCE_MIN_RANGE_CM / 100
         then guidance_compute (Some v) (Some t) (Some c)
                = (0, Some (c\<lparr>intercept := True, accel_x := 0, accel_y := 0, accel_z := 0\<rparr>))
         else \<exists>out. guidance_compute (Some v) (Some t) (Some c) = (0, Some out) \<and>
                \<not> intercept out \<and>
                (if vnorm (pn_accel v t) > GUIDANCE_MAX_ACCEL
                 then accel_of out
                        = vscale (GUIDANCE_MAX_ACCEL / vnorm (pn_accel v t)) (pn_accel v t) \<and>
                      vnorm (accel_of out) = GUIDANCE_MAX_ACCEL \<and>
                      vscale (1 / vnorm (accel_of out)) (accel_of out)
                        = vscale (1 / vnorm (pn_accel v t)) (pn_accel v t)
                 else accel_of out = pn_accel v t) \<and>
                vnorm (accel_of out) \<le> GUIDANCE_MAX_ACCEL"
proof (cases "vnorm (vsub (target_position t) (vehicle_position v)) < GUIDANCE_MIN_RANGE_CM / 100")
  case True
  then show ?thesis
    using guidance_compute_intercept[OF assms True] by simp
next
  case False
  define out where
    "out = c\<lparr>accel_x := fst (clamp_accel (pn_accel v t)),
              accel_y := fst (snd (clamp_accel (pn_accel v t))),
              accel_z := snd (snd (clamp_accel (pn_accel v t))),
              intercept := False\<rparr>"
  have run: "guidance_compute (Some v) (Some t) (Some c) = (0, Some out)"
    unfolding out_def by (rule guidance_compute_refines[OF assms False])
  have acc: "accel_of out = clamp_accel (pn_accel v t)"
    by (simp add: out_def accel_of_def)
  have ni: "\<not> intercept out"
    by (simp add: out_def)
  have bound: "vnorm (accel_of out) \<le> GUIDANCE_MAX_ACCEL"
    unfolding acc by (rule clamp_accel_bound)
  have shape: "if vnorm (pn_accel v t) > GUIDANCE_MAX_ACCEL
      then accel_of out = vscale (GUIDANCE_MAX_ACCEL / vnorm (pn_accel v t)) (pn_accel v t) \<and>
           vnorm (accel_of out) = GUIDANCE_MAX_ACCEL \<and>
           vscale (1 / vnorm (accel_of out)) (accel_of out)
             = vscale (1 / vnorm (pn_accel v t)) (pn_accel v t)
      else accel_of out = pn_accel v t"
  proof (cases "vnorm (pn_accel v t) > GUIDANCE_MAX_ACCEL")
    case big: True
    have "accel_of out = vscale (GUIDANCE_MAX_ACCEL / vnorm (pn_accel v t)) (pn_accel v t)"
      unfolding acc using big by (simp add: clamp_accel_def)
    moreover have "vnorm (accel_of out) = GUIDANCE_MAX_ACCEL"
      unfolding acc by (rule clamp_accel_norm[OF big])
    moreover have "vscale (1 / vnorm (accel_of out)) (accel_of out)
             = vscale (1 / vnorm (pn_accel v t)) (pn_accel v t)"
      unfolding acc by (rule clamp_accel_direction[OF big])
    ultimately show ?thesis using big by simp
  next
    case small: False
    then show ?thesis unfolding acc by (simp add: clamp_accel_def)
  qed
  show ?thesis
    using False run ni shape bound by auto
qed

theorem guidance_compute_pn_clamped_witness:
  "valid \<lparr>range_cm = 100, azimuth_rad = 0, elevation_rad = 0, confidence = 1, valid = True\<rparr> \<and>
   vnorm (pn_accel \<lparr>pos_x = 0, pos_y = 0, pos_z = 0, vel_x = - 1, vel_y = - 4, vel_z = 0\<rparr>
            \<lparr>range_cm = 100, azimuth_rad = 0, elevation_rad = 0, confidence = 1, valid = True\<rparr>)
     > GUIDANCE_MAX_ACCEL \<and>
   guidance_compute
     (Some \<lparr>pos_x = 0, pos_y = 0, pos_z = 0, vel_x = - 1, vel_y = - 4, vel_z = 0\<rparr>)
     (Some \<lparr>range_cm = 100, azimuth_rad = 0, elevation_rad = 0, confidence = 1, valid = True\<rparr>)
     (Some \<lparr>accel_x = 5, accel_y = 5, accel_z = 5, intercept = True\<rparr>)
   = (0, Some \<lparr>accel_x = 0, accel_y = 981 / 100, accel_z = 0, intercept = False\<rparr>)"
proof -
  let ?v = "\<lparr>pos_x = 0, pos_y = 0, pos_z = 0, vel_x = - 1, vel_y = - 4, vel_z = 0\<rparr>"
  let ?t = "\<lparr>range_cm = 100, azimuth_rad = 0, elevation_rad = 0, confidence = 1, valid = True\<rparr>"
  let ?c = "\<lparr>accel_x = 5, accel_y = 5, accel_z = 5, intercept = True\<rparr>"
  have s144: "sqrt 144 = 12"
    by (rule real_sqrt_unique) simp_all
  have far: "\<not> vnorm (vsub (target_position ?t) (vehicle_position ?v)) < GUIDANCE_MIN_RANGE_CM / 100"
    by (simp add: target_position_def vehicle_position_def GUIDANCE_MIN_RANGE_CM_def)
  have pn: "pn_accel ?v ?t = (0, 12, 0)"
    by (simp add: pn_accel_def target_position_def vehicle_position_def vehicle_velocity_def
          GUIDANCE_N_def)
  have big: "vnorm (pn_accel ?v ?t) > GUIDANCE_MAX_ACCEL"
    by (simp add: pn s144 GUIDANCE_MAX_ACCEL_def)
  obtain out where
    run: "guidance_compute (Some ?v) (Some ?t) (Some ?c) = (0, Some out)" and
    ni: "\<not> intercept out" and
    acc: "accel_of out = vscale (GUIDANCE_MAX_ACCEL / vnorm (pn_accel ?v ?t)) (pn_accel ?v ?t)"
    using guidance_compute_pn_clamped [of ?t ?v ?c] far big by auto
  have "accel_of out = (0, 981 / 100, 0)"
    unfolding acc by (simp add: pn s144 GUIDANCE_MAX_ACCEL_def)
  with ni have "out = \<lparr>accel_x = 0, accel_y = 981 / 100, accel_z = 0, intercept = False\<rparr>"
    by (cases out) (simp add: accel_of_def)
  with run big show ?thesis by simp
qed

subsection \<open>Beamformer\<close>

declare beamform_channel.simps [simp del] delay_and_sum.simps [simp del]

lemma beamform_channel_length:
  "length (beamform_channel out chan d n j) = length out"
proof (induction out chan d n j rule: beamform_channel.induct)
  case (1 out chan d n j)
  show ?case
  proof (cases "j < n")
    case True
    show ?thesis
    proof (cases "int j - d \<ge> 0 \<and> int j - d < int n")
      case inr: True
      have "beamform_channel out chan d n j =
            beamform_channel (out[j := out ! j + chan ! nat (int j - d)]) chan d n (j + 1)"
        using True inr by (subst beamform_channel.simps) (simp add: Let_def)
      with "1.IH"(1)[OF True refl inr] show ?thesis by simp
    next
      case outr: False
      have "beamform_channel out chan d n j = beamform_channel out chan d n (j + 1)"
        using True outr by (subst beamform_channel.simps) (auto simp: Let_def)
      with "1.IH"(2)[OF True refl outr] show ?thesis by simp
    qed
  next
    case False
    then show ?thesis by (subst beamform_channel.simps) simp
  qed
qed

lemma beamform_channel_nth:
  "n \<le> length out \<Longrightarrow>
   beamform_channel out chan d n j ! k =
     (if j \<le> k \<and> k < n then out ! k + shifted_sample chan d n k else out ! k)"
proof (induction out chan d n j rule: beamform_channel.induct)
  case (1 out chan d n j)
  show ?case
  proof (cases "j < n")
    case True
    show ?thesis
    proof (cases "int j - d \<ge> 0 \<and> int j - d < int n")
      case inr: True
      have step: "beamform_channel out chan d n j =
            beamform_channel (out[j := out ! j + chan ! nat (int j - d)]) chan d n (j + 1)"
        using True inr by (subst beamform_channel.simps) (simp add: Let_def)
      have sj: "shifted_sample chan d n j = chan ! nat (int j - d)"
        using inr by (simp add: shifted_sample_def)
      show ?thesis
        unfolding step
        using "1.IH"(1)[OF True refl inr] "1.prems" True sj
        by (auto simp: nth_list_update)
    next
      case outr: False
      have step: "beamform_channel out chan d n j = beamform_channel out chan d n (j + 1)"
        using True outr by (subst beamform_channel.simps) (auto simp: Let_def)
      have sj: "shifted_sample chan d n j = 0"
        using outr by (auto simp: shifted_sample_def)
      show ?thesis
        unfolding step
        using "1.IH"(2)[OF True refl outr] "1.prems" True sj
        by (cases "k = j") auto
    qed
  next
    case False
    then show ?thesis by (subst beamform_channel.simps) auto
  qed
qed

lemma delay_and_sum_length:
  "length (delay_and_sum out filtered delays n i) = length out"
proof (induction out filtered delays n i rule: delay_and_sum.induct)
  case (1 out filtered delays n i)
  show ?case
  proof (cases "i < NUM_MICS")
    case True
    have "delay_and_sum out filtered delays n i =
          delay_and_sum (beamform_channel out (filtered ! i)
                           (int32_of_float (delays ! i * real SONAR_SAMPLE_RATE)) n 0)
            filtered delays n (i + 1)"
      using True by (subst delay_and_sum.simps) (simp add: Let_def)
    with "1.IH"[OF True refl] show ?thesis by (simp add: beamform_channel_length)
  next
    case False
    then show ?thesis by (subst delay_and_sum.simps) simp
  qed
qed

lemma delay_and_sum_nth:
  "n \<le> length out \<Longrightarrow> k < n \<Longrightarrow>
   delay_and_sum out filtered delays n i ! k =
     out ! k + (\<Sum>m = i..<NUM_MICS.
                  shifted_sample (filtered ! m)
                    (int32_of_float (delays ! m * real SONAR_SAMPLE_RATE)) n k)"
proof (induction out filtered delays n i rule: delay_and_sum.induct)
  case (1 out filtered delays n i)
  show ?case
  proof (cases "i < NUM_MICS")
    case True
    have step: "delay_and_sum out filtered delays n i =
          delay_and_sum (beamform_channel out (filtered ! i)
                           (int32_of_float (delays ! i * real SONAR_SAMPLE_RATE)) n 0)
            filtered delays n (i + 1)"
      using True by (subst delay_and_sum.simps) (simp add: Let_def)
    have len: "n \<le> length (beamform_channel out (filtered ! i)
                           (int32_of_float (delays ! i * real SONAR_SAMPLE_RATE)) n 0)"
      using "1.prems"(1) by (simp add: beamform_channel_length)
    show ?thesis
      unfolding step "1.IH"[OF True refl len "1.prems"(2)]
      using True "1.prems"
      by (simp add: beamform_channel_nth sum.atLeast_Suc_lessThan)
  next
    case False
    then show ?thesis by (subst delay_and_sum.simps) simp
  qed
qed

lemma delay_and_sum_rest:
  "n \<le> length out \<Longrightarrow> n \<le> k \<Longrightarrow> delay_and_sum out filtered delays n i ! k = out ! k"
proof (induction out filtered delays n i rule: delay_and_sum.induct)
  case (1 out filtered delays n i)
  show ?case
  proof (cases "i < NUM_MICS")
    case True
    have step: "delay_and_sum out filtered delays n i =
          delay_and_sum (beamform_channel out (filtered ! i)
                           (int32_of_float (delays ! i * real SONAR_SAMPLE_RATE)) n 0)
            filtered delays n (i + 1)"
      using True by (subst delay_and_sum.simps) (simp add: Let_def)
    have len: "n \<le> length (beamform_channel out (filtered ! i)
                           (int32_of_float (delays ! i * real SONAR_SAMPLE_RATE)) n 0)"
      using "1.prems"(1) by (simp add: beamform_channel_length)
    show ?thesis
      unfolding step "1.IH"[OF True refl len "1.prems"(2)]
      using "1.prems" by (simp add: beamform_channel_nth)
  next
    case False
    then show ?thesis by (subst delay_and_sum.simps) simp
  qed
qed

lemma NUM_MICS_upt: "[0..<NUM_MICS] = [0, 1, 2, 3]"
  by (simp add: NUM_MICS_def upt_rec numeral_eq_Suc)

lemma sonar_beamform_unfold:
  "sonar_beamform (Some s) azimuth elevation =
     Some (s\<lparr>beamformed_output :=
            arm_scale_f32
              (delay_and_sum (replicate (sample_count s) 0 @ drop (sample_count s) (beamformed_output s))
                 (filtered_buffer s) (map (relative_delay azimuth elevation) [0..<NUM_MICS])
                 (sample_count s) 0)
              (1 / real NUM_MICS)
              (delay_and_sum (replicate (sample_count s) 0 @ drop (sample_count s) (beamformed_output s))
                 (filtered_buffer s) (map (relative_delay azimuth elevation) [0..<NUM_MICS])
                 (sample_count s) 0)
              (sample_count s)\<rparr>)"
  by (simp add: sonar_beamform_def Let_def relative_delay_def steering_delay_def NUM_MICS_upt
        diff_divide_distrib)

lemma sonar_beamform_output:
  assumes "sample_count s \<le> length (beamformed_output s)"
  shows "\<exists>out. sonar_beamform (Some s) azimuth elevation = Some (s\<lparr>beamformed_output := out\<rparr>) \<and>
           length out = length (beamformed_output s) \<and>
           (\<forall>j<sample_count s.
              out ! j = (\<Sum>i<NUM_MICS.
                           shifted_sample (filtered_buffer s ! i)
                             (int32_of_float (relative_delay azimuth elevation i
                                              * real SONAR_SAMPLE_RATE))
                             (sample_count s) j) / real NUM_MICS) \<and>
           (\<forall>j\<ge>sample_count s. out ! j = beamformed_output s ! j)"
proof -
  define n where "n = sample_count s"
  define cleared where "cleared = replicate n (0::real) @ drop n (beamformed_output s)"
  define delays where "delays = map (relative_delay azimuth elevation) [0..<NUM_MICS]"
  define summed where "summed = delay_and_sum cleared (filtered_buffer s) delays n 0"
  define out where "out = arm_scale_f32 summed (1 / real NUM_MICS) summed n"
  have lc: "length cleared = length (beamformed_output s)"
    using assms by (simp add: cleared_def n_def)
  have nc: "n \<le> length cleared"
    using assms lc by (simp add: n_def)
  have ls: "length summed = length cleared"
    by (simp add: summed_def delay_and_sum_length)
  have lo: "length out = length (beamformed_output s)"
    using nc ls lc by (simp add: out_def arm_scale_f32_def)
  have run: "sonar_beamform (Some s) azimuth elevation = Some (s\<lparr>beamformed_output := out\<rparr>)"
    by (simp only: sonar_beamform_unfold out_def summed_def cleared_def delays_def n_def)
  have inside: "out ! j = (\<Sum>i<NUM_MICS.
                           shifted_sample (filtered_buffer s ! i)
                             (int32_of_float (relative_delay azimuth elevation i
                                              * real SONAR_SAMPLE_RATE)) n j) / real NUM_MICS"
    if "j < n" for j
  proof -
    have "out ! j = summed ! j * (1 / real NUM_MICS)"
      using that nc ls by (simp add: out_def arm_scale_f32_def nth_append)
    also have "summed ! j = cleared ! j + (\<Sum>m = 0..<NUM_MICS.
                  shifted_sample (filtered_buffer s ! m)
                    (int32_of_float (delays ! m * real SONAR_SAMPLE_RATE)) n j)"
      unfolding summed_def by (rule delay_and_sum_nth[OF nc that])
    also have "cleared ! j = 0"
      using that by (simp add: cleared_def nth_append)
    also have "(\<Sum>m = 0..<NUM_MICS.
                  shifted_sample (filtered_buffer s ! m)
                    (int32_of_float (delays ! m * real SONAR_SAMPLE_RATE)) n j)
             = (\<Sum>m = 0..<NUM_MICS.
                  shifted_sample (filtered_buffer s ! m)
                    (int32_of_float (relative_delay azimuth elevation m * real SONAR_SAMPLE_RATE)) n j)"
      by (rule sum.cong) (simp_all add: delays_def)
    finally show ?thesis
      by (simp add: atLeast0LessThan)
  qed
  have outside: "out ! j = beamformed_output s ! j" if "n \<le> j" for j
  proof -
    have "out ! j = summed ! j"
      using that nc ls by (simp add: out_def arm_scale_f32_def nth_append)
    also have "\<dots> = cleared ! j"
      unfolding summed_def by (rule delay_and_sum_rest[OF nc that])
    also have "\<dots> = beamformed_output s ! j"
      using that assms by (simp add: cleared_def nth_append n_def)
    finally show ?thesis .
  qed
  show ?thesis
    using run lo inside outside unfolding n_def by blast
qed

lemma reference_unshifted:
  "relative_delay azimuth elevation 0 = 0"
  "int32_of_float (relative_delay azimuth elevation 0 * real SONAR_SAMPLE_RATE) = 0"
  by (simp_all add: relative_delay_def int32_of_float_def)

lemma sum_four: "(\<Sum>i<(4::nat). f i) = f 0 + f 1 + f 2 + (f 3 :: real)"
  by (simp add: eval_nat_numeral)

lemma relative_delay_broadside:
  "relative_delay 0 0 0 = 0" "relative_delay 0 0 1 = 1 / 34300"
  "relative_delay 0 0 (Suc 0) = 1 / 34300"
  "relative_delay 0 0 2 = 0" "relative_delay 0 0 3 = 1 / 34300"
  by (simp_all add: relative_delay_def steering_delay_def mic_positions_def SPEED_OF_SOUND_def)

text \<open>
  C4 (as amended). For the four filtered channels, the fixed speed of sound and any
  steering direction, the delay-and-sum beamformer subtracts the reference channel's
  delay, so that the reference channel 0 has shift \<open>0\<close> and is unshifted; converts each
  relative delay \<open>\<tau>\<^sub>i\<close> to an integer sample shift by dropping the fractional part of
  \<open>\<tau>\<^sub>i \<sqdot> sampleRate\<close> (rounding toward zero); sums for each output index below the
  sample count the shifted sample of each channel, a shifted index outside \<open>[0, L)\<close>
  contributing zero; and divides each output sample by the channel count.
\<close>

theorem beamform_delay_and_sum:
  assumes "sample_count s \<le> length (beamformed_output s)"
  shows "\<exists>out. sonar_beamform (Some s) azimuth elevation = Some (s\<lparr>beamformed_output := out\<rparr>) \<and>
           (\<forall>j<sample_count s.
              out ! j = (\<Sum>i<NUM_MICS.
                           shifted_sample (filtered_buffer s ! i)
                             (int32_of_float (relative_delay azimuth elevation i
                                              * real SONAR_SAMPLE_RATE))
                             (sample_count s) j) / real NUM_MICS) \<and>
           (\<forall>x. int32_of_float x = (if 0 \<le> x then \<lfloor>x\<rfloor> else \<lceil>x\<rceil>)) \<and>
           int32_of_float (relative_delay azimuth elevation 0 * real SONAR_SAMPLE_RATE) = 0 \<and>
           (\<forall>j<sample_count s.
              shifted_sample (filtered_buffer s ! 0) 0 (sample_count s) j = filtered_buffer s ! 0 ! j)"
proof -
  obtain out where
    run: "sonar_beamform (Some s) azimuth elevation = Some (s\<lparr>beamformed_output := out\<rparr>)" and
    val: "\<forall>j<sample_count s.
              out ! j = (\<Sum>i<NUM_MICS.
                           shifted_sample (filtered_buffer s ! i)
                             (int32_of_float (relative_delay azimuth elevation i
                                              * real SONAR_SAMPLE_RATE))
                             (sample_count s) j) / real NUM_MICS"
    using sonar_beamform_output[OF assms, of azimuth elevation] by blast
  have tr: "\<forall>x. int32_of_float x = (if 0 \<le> x then \<lfloor>x\<rfloor> else \<lceil>x\<rceil>)"
    by (simp add: int32_of_float_def)
  have ref: "\<forall>j<sample_count s.
      shifted_sample (filtered_buffer s ! 0) 0 (sample_count s) j = filtered_buffer s ! 0 ! j"
    by (simp add: shifted_sample_def)
  show ?thesis
    using run val tr ref reference_unshifted(2) by blast
qed

theorem beamform_delay_and_sum_witness:
  "sample_count
     \<lparr>tx_chirp = [], matched_filter = [], rx_buffer = [[], [], [], []],
      filtered_buffer = [replicate 8 0, [1, 2, 3, 4, 5, 6, 7, 8], replicate 8 0, replicate 8 0],
      beamformed_output = replicate 8 9,
      target = \<lparr>range_cm = 0, azimuth_rad = 0, elevation_rad = 0, confidence = 0, valid = False\<rparr>,
      processing_complete = False, sample_count = 8\<rparr>
     \<le> length (beamformed_output
     \<lparr>tx_chirp = [], matched_filter = [], rx_buffer = [[], [], [], []],
      filtered_buffer = [replicate 8 0, [1, 2, 3, 4, 5, 6, 7, 8], replicate 8 0, replicate 8 0],
      beamformed_output = replicate 8 9,
      target = \<lparr>range_cm = 0, azimuth_rad = 0, elevation_rad = 0, confidence = 0, valid = False\<rparr>,
      processing_complete = False, sample_count = 8\<rparr>) \<and>
   beamformed_output (the (sonar_beamform (Some
     \<lparr>tx_chirp = [], matched_filter = [], rx_buffer = [[], [], [], []],
      filtered_buffer = [replicate 8 0, [1, 2, 3, 4, 5, 6, 7, 8], replicate 8 0, replicate 8 0],
      beamformed_output = replicate 8 9,
      target = \<lparr>range_cm = 0, azimuth_rad = 0, elevation_rad = 0, confidence = 0, valid = False\<rparr>,
      processing_complete = False, sample_count = 8\<rparr>) 0 0)) ! 6 = 1 / 2"
proof -
  let ?s = "\<lparr>tx_chirp = [], matched_filter = [], rx_buffer = [[], [], [], []],
      filtered_buffer = [replicate 8 0, [1, 2, 3, 4, 5, 6, 7, 8], replicate 8 0, replicate 8 0],
      beamformed_output = replicate 8 9,
      target = \<lparr>range_cm = 0, azimuth_rad = 0, elevation_rad = 0, confidence = 0, valid = False\<rparr>,
      processing_complete = False, sample_count = 8\<rparr>"
  have h: "sample_count ?s \<le> length (beamformed_output ?s)" by simp
  obtain out where
    run: "sonar_beamform (Some ?s) 0 0 = Some (?s\<lparr>beamformed_output := out\<rparr>)" and
    val: "\<forall>j<sample_count ?s.
              out ! j = (\<Sum>i<NUM_MICS.
                           shifted_sample (filtered_buffer ?s ! i)
                             (int32_of_float (relative_delay 0 0 i * real SONAR_SAMPLE_RATE))
                             (sample_count ?s) j) / real NUM_MICS"
    using beamform_delay_and_sum [OF h, of 0 0] by blast
  have "out ! 6 = 1 / 2"
    using val[rule_format, of 6]
    by (simp add: sum_four relative_delay_broadside shifted_sample_def int32_of_float_def
          SONAR_SAMPLE_RATE_def NUM_MICS_def)
  with run h show ?thesis by simp
qed

text \<open>
  C4 as stated fails where \<open>\<tau>\<^sub>i \<sqdot> sampleRate\<close> has a fractional part of one half or more.
  Steering at azimuth 0 and elevation 0, channel 1 has \<open>\<tau> \<sqdot> sampleRate = 2000 / 343\<close>,
  about 5.83: the code shifts it by 5 samples, rounding gives 6. With a ramp on channel
  1 the output sample 5 is \<open>1/4\<close>, where a shift of 6 would give \<open>0\<close>.
\<close>

theorem beamform_round_counterexample:
  "int32_of_float (relative_delay 0 0 1 * real SONAR_SAMPLE_RATE) = 5 \<and>
   round (relative_delay 0 0 1 * real SONAR_SAMPLE_RATE) = 6 \<and>
   beamformed_output (the (sonar_beamform (Some
     \<lparr>tx_chirp = [], matched_filter = [], rx_buffer = [[], [], [], []],
      filtered_buffer = [replicate 8 0, [1, 2, 3, 4, 5, 6, 7, 8], replicate 8 0, replicate 8 0],
      beamformed_output = replicate 8 9,
      target = \<lparr>range_cm = 0, azimuth_rad = 0, elevation_rad = 0, confidence = 0, valid = False\<rparr>,
      processing_complete = False, sample_count = 8\<rparr>) 0 0)) ! 5 = 1 / 4 \<and>
   (\<Sum>i<NUM_MICS.
      shifted_sample ([replicate 8 0, [1, 2, 3, 4, 5, 6, 7, 8], replicate 8 0, replicate 8 0] ! i)
        (round (relative_delay 0 0 i * real SONAR_SAMPLE_RATE)) 8 5) / real NUM_MICS = 0"
proof -
  let ?s = "\<lparr>tx_chirp = [], matched_filter = [], rx_buffer = [[], [], [], []],
      filtered_buffer = [replicate 8 0, [1, 2, 3, 4, 5, 6, 7, 8], replicate 8 0, replicate 8 0],
      beamformed_output = replicate 8 9,
      target = \<lparr>range_cm = 0, azimuth_rad = 0, elevation_rad = 0, confidence = 0, valid = False\<rparr>,
      processing_complete = False, sample_count = 8\<rparr>"
  have h: "sample_count ?s \<le> length (beamformed_output ?s)" by simp
  obtain out where
    run: "sonar_beamform (Some ?s) 0 0 = Some (?s\<lparr>beamformed_output := out\<rparr>)" and
    val: "\<forall>j<sample_count ?s.
              out ! j = (\<Sum>i<NUM_MICS.
                           shifted_sample (filtered_buffer ?s ! i)
                             (int32_of_float (relative_delay 0 0 i * real SONAR_SAMPLE_RATE))
                             (sample_count ?s) j) / real NUM_MICS"
    using sonar_beamform_output [OF h, of 0 0] by blast
  have a: "out ! 5 = 1 / 4"
    using val[rule_format, of 5]
    by (simp add: sum_four relative_delay_broadside shifted_sample_def int32_of_float_def
          SONAR_SAMPLE_RATE_def NUM_MICS_def)
  have b: "int32_of_float (relative_delay 0 0 1 * real SONAR_SAMPLE_RATE) = 5"
    by (simp add: relative_delay_broadside int32_of_float_def SONAR_SAMPLE_RATE_def)
  have c: "round (relative_delay 0 0 1 * real SONAR_SAMPLE_RATE) = 6"
    by (simp add: relative_delay_broadside round_def SONAR_SAMPLE_RATE_def)
  have d: "(\<Sum>i<NUM_MICS.
      shifted_sample ([replicate 8 0, [1, 2, 3, 4, 5, 6, 7, 8], replicate 8 0, replicate 8 0] ! i)
        (round (relative_delay 0 0 i * real SONAR_SAMPLE_RATE)) 8 5) / real NUM_MICS = 0"
    by (simp add: sum_four relative_delay_broadside shifted_sample_def round_def
          SONAR_SAMPLE_RATE_def NUM_MICS_def)
  show ?thesis using run a b c d by simp
qed

subsection \<open>Angular search and detection\<close>

declare arm_max_loop.simps [simp del] scan_elevation.simps [simp del] scan_azimuth.simps [simp del]

lemma shifted_sample_zero: "shifted_sample (replicate n 0) d n j = 0"
proof (cases "0 \<le> int j - d \<and> int j - d < int n")
  case True
  then have "nat (int j - d) < n" by linarith
  with True show ?thesis by (simp add: shifted_sample_def)
next
  case False
  then show ?thesis by (auto simp: shifted_sample_def)
qed

lemma beamform_reference_only:
  assumes fb: "filtered_buffer s = [ch, replicate n 0, replicate n 0, replicate n 0]"
    and sc: "sample_count s = n"
    and lo: "length (beamformed_output s) = n"
    and lc: "length ch = n"
  shows "sonar_beamform (Some s) azimuth elevation
         = Some (s\<lparr>beamformed_output := map (\<lambda>x. x / 4) ch\<rparr>)"
proof -
  have h: "sample_count s \<le> length (beamformed_output s)"
    using sc lo by simp
  obtain out where
    run: "sonar_beamform (Some s) azimuth elevation = Some (s\<lparr>beamformed_output := out\<rparr>)" and
    len: "length out = length (beamformed_output s)" and
    val: "\<forall>j<sample_count s.
              out ! j = (\<Sum>i<NUM_MICS.
                           shifted_sample (filtered_buffer s ! i)
                             (int32_of_float (relative_delay azimuth elevation i
                                              * real SONAR_SAMPLE_RATE))
                             (sample_count s) j) / real NUM_MICS"
    using sonar_beamform_output[OF h, of azimuth elevation] by blast
  have "out ! j = ch ! j / 4" if "j < n" for j
  proof -
    have "out ! j = (\<Sum>i<4.
                           shifted_sample (filtered_buffer s ! i)
                             (int32_of_float (relative_delay azimuth elevation i
                                              * real SONAR_SAMPLE_RATE)) n j) / 4"
      using val that sc by (simp add: NUM_MICS_def)
    also have "\<dots> = shifted_sample ch 0 n j / 4"
      unfolding sum_four fb
      by (simp add: shifted_sample_zero reference_unshifted(2))
    also have "\<dots> = ch ! j / 4"
      using that by (simp add: shifted_sample_def)
    finally show ?thesis .
  qed
  then have "out = map (\<lambda>x. x / 4) ch"
    using len lo lc by (intro nth_equalityI) simp_all
  with run show ?thesis by simp
qed

lemma scan_elevation_idle:
  assumes stable: "\<And>az el. sonar_beamform (Some s) az el = Some s"
    and am: "arm_max_f32 (beamformed_output s) (sample_count s) = (mv, mi)"
    and le: "\<bar>mv\<bar> \<le> max_power"
  shows "scan_elevation s azimuth el_step el_idx (max_power, ba, be, bi) = (s, max_power, ba, be, bi)"
proof (induction "BEAMFORM_ELEVATION_STEPS - el_idx" arbitrary: el_idx)
  case 0
  then show ?case by (subst scan_elevation.simps) simp
next
  case (Suc k)
  then have lt: "el_idx < BEAMFORM_ELEVATION_STEPS" and k: "k = BEAMFORM_ELEVATION_STEPS - (el_idx + 1)"
    by simp_all
  have "scan_elevation s azimuth el_step el_idx (max_power, ba, be, bi)
        = scan_elevation s azimuth el_step (el_idx + 1) (max_power, ba, be, bi)"
    using lt le by (subst scan_elevation.simps) (simp add: stable am Let_def)
  with Suc.hyps(1)[OF k] show ?case by simp
qed

lemma scan_azimuth_idle:
  assumes stable: "\<And>az el. sonar_beamform (Some s) az el = Some s"
    and am: "arm_max_f32 (beamformed_output s) (sample_count s) = (mv, mi)"
    and le: "\<bar>mv\<bar> \<le> max_power"
  shows "scan_azimuth s az_step el_step az_idx (max_power, ba, be, bi) = (s, max_power, ba, be, bi)"
proof (induction "BEAMFORM_AZIMUTH_STEPS - az_idx" arbitrary: az_idx)
  case 0
  then show ?case by (subst scan_azimuth.simps) simp
next
  case (Suc k)
  then have lt: "az_idx < BEAMFORM_AZIMUTH_STEPS" and k: "k = BEAMFORM_AZIMUTH_STEPS - (az_idx + 1)"
    by simp_all
  have "scan_azimuth s az_step el_step az_idx (max_power, ba, be, bi)
        = scan_azimuth s az_step el_step (az_idx + 1) (max_power, ba, be, bi)"
    using lt by (subst scan_azimuth.simps) (simp add: scan_elevation_idle[OF stable am le] Let_def)
  with Suc.hyps(1)[OF k] show ?case by simp
qed

lemma scan_first_point:
  assumes first: "\<And>az el. sonar_beamform (Some s) az el = Some s'"
    and stable: "\<And>az el. sonar_beamform (Some s') az el = Some s'"
    and am: "arm_max_f32 (beamformed_output s') (sample_count s') = (mv, mi)"
    and pos: "0 < \<bar>mv\<bar>"
  shows "scan_azimuth s az_step el_step 0 (0, 0, 0, 0)
         = (s', \<bar>mv\<bar>, BEAMFORM_AZIMUTH_MIN, BEAMFORM_ELEVATION_MIN, mi)"
proof -
  have el0: "scan_elevation s BEAMFORM_AZIMUTH_MIN el_step 0 (0, 0, 0, 0)
             = scan_elevation s' BEAMFORM_AZIMUTH_MIN el_step 1
                 (\<bar>mv\<bar>, BEAMFORM_AZIMUTH_MIN, BEAMFORM_ELEVATION_MIN, mi)"
    using pos
    by (subst scan_elevation.simps)
       (simp add: first am Let_def BEAMFORM_ELEVATION_STEPS_def)
  have el: "scan_elevation s BEAMFORM_AZIMUTH_MIN el_step 0 (0, 0, 0, 0)
            = (s', \<bar>mv\<bar>, BEAMFORM_AZIMUTH_MIN, BEAMFORM_ELEVATION_MIN, mi)"
    unfolding el0 by (rule scan_elevation_idle[OF stable am]) simp
  have "scan_azimuth s az_step el_step 0 (0, 0, 0, 0)
        = scan_azimuth s' az_step el_step 1
            (\<bar>mv\<bar>, BEAMFORM_AZIMUTH_MIN, BEAMFORM_ELEVATION_MIN, mi)"
    by (subst scan_azimuth.simps) (simp add: el Let_def BEAMFORM_AZIMUTH_STEPS_def)
  also have "\<dots> = (s', \<bar>mv\<bar>, BEAMFORM_AZIMUTH_MIN, BEAMFORM_ELEVATION_MIN, mi)"
    by (rule scan_azimuth_idle[OF stable am]) simp
  finally show ?thesis .
qed

lemma arm_max_two: "arm_max_f32 [- 2, 1 / 4] 2 = (1 / 4, 1)"
  by (simp add: arm_max_f32_def arm_max_loop.simps)

lemma negative_peak_scan:
  "scan_azimuth negative_peak_state az_step el_step 0 (0, 0, 0, 0)
   = (negative_peak_state\<lparr>beamformed_output := [- 2, 1 / 4]\<rparr>,
      1 / 4, BEAMFORM_AZIMUTH_MIN, BEAMFORM_ELEVATION_MIN, 1)"
proof -
  let ?s' = "negative_peak_state\<lparr>beamformed_output := [- 2, 1 / 4]\<rparr>"
  have first: "sonar_beamform (Some negative_peak_state) az el = Some ?s'" for az el
    using beamform_reference_only[of negative_peak_state "[- 8, 1]" 2 az el]
    by (simp add: negative_peak_state_def numeral_2_eq_2)
  have stable: "sonar_beamform (Some ?s') az el = Some ?s'" for az el
    using beamform_reference_only[of ?s' "[- 8, 1]" 2 az el]
    by (simp add: negative_peak_state_def numeral_2_eq_2)
  have am: "arm_max_f32 (beamformed_output ?s') (sample_count ?s') = (1 / 4, 1)"
    by (simp add: negative_peak_state_def arm_max_two)
  show ?thesis
    using scan_first_point[OF first stable am] by simp
qed

lemma matched_filter_copy:
  "fold (\<lambda>i st. sonar_matched_filter (\<lambda>srcA lenA srcB lenB dst. srcA) st i) [0..<NUM_MICS]
     (Some negative_peak_state) = Some negative_peak_state"
  unfolding NUM_MICS_upt
  by (simp add: sonar_matched_filter_def negative_peak_state_def NUM_MICS_def)

lemma arm_max_loop_spike:
  assumes "0 < v"
  shows "1 \<le> i \<Longrightarrow> i \<le> k \<Longrightarrow> arm_max_loop (replicate k 0 @ [v]) (Suc k) i 0 0 = (v, k)"
proof (induction "k - i" arbitrary: i)
  case 0
  then have ik: "i = k" by simp
  have "arm_max_loop (replicate k 0 @ [v]) (Suc k) k 0 0
        = arm_max_loop (replicate k 0 @ [v]) (Suc k) (k + 1) v k"
    using assms by (subst arm_max_loop.simps) (simp add: nth_append)
  also have "\<dots> = (v, k)"
    by (subst arm_max_loop.simps) simp
  finally show ?case using ik by simp
next
  case (Suc d)
  then have lt: "i < k" and d: "d = k - (i + 1)" by simp_all
  have "arm_max_loop (replicate k 0 @ [v]) (Suc k) i 0 0
        = arm_max_loop (replicate k 0 @ [v]) (Suc k) (i + 1) 0 0"
    using lt by (subst arm_max_loop.simps) (simp add: nth_append)
  also have "\<dots> = (v, k)"
    using Suc.hyps(1)[OF d] lt by simp
  finally show ?case .
qed

lemma arm_max_spike:
  assumes "0 < v" and "1 \<le> k"
  shows "arm_max_f32 (replicate k 0 @ [v]) (Suc k) = (v, k)"
  using arm_max_loop_spike[OF assms(1), of 1 k] assms(2)
  by (simp add: arm_max_f32_def nth_append)

lemma spike_scan:
  "scan_azimuth spike_state az_step el_step 0 (0, 0, 0, 0)
   = (spike_state\<lparr>beamformed_output := replicate 117 0 @ [1000]\<rparr>,
      1000, BEAMFORM_AZIMUTH_MIN, BEAMFORM_ELEVATION_MIN, 117)"
proof -
  let ?s' = "spike_state\<lparr>beamformed_output := replicate 117 0 @ [1000]\<rparr>"
  have first: "sonar_beamform (Some spike_state) az el = Some ?s'" for az el
    using beamform_reference_only[of spike_state "replicate 117 0 @ [4000]" 118 az el]
    by (simp add: spike_state_def)
  have stable: "sonar_beamform (Some ?s') az el = Some ?s'" for az el
    using beamform_reference_only[of ?s' "replicate 117 0 @ [4000]" 118 az el]
    by (simp add: spike_state_def)
  have am: "arm_max_f32 (beamformed_output ?s') (sample_count ?s') = (1000, 117)"
    using arm_max_spike[of 1000 117] by (simp add: spike_state_def)
  show ?thesis
    using scan_first_point[OF first stable am] by simp
qed

lemma spike_matched_filter:
  "fold (\<lambda>i st. sonar_matched_filter (\<lambda>srcA lenA srcB lenB dst. srcA) st i) [0..<NUM_MICS]
     (Some spike_state) = Some spike_state"
  unfolding NUM_MICS_upt
  by (simp add: sonar_matched_filter_def spike_state_def NUM_MICS_def)

lemma spike_range: "round_trip_range_cm 117 = 40131 / 4000"
  by (simp add: round_trip_range_cm_def SONAR_SAMPLE_RATE_def SPEED_OF_SOUND_def)

text \<open>
  C2. With the result of the angular scan named \<open>(s', peakValue, best_azimuth,
  best_elevation, peakIndex)\<close>: sonar\_detect\_target reports no target (a nonzero
  return code, \<open>-2\<close> or \<open>-3\<close>, the stored target marked invalid, and the processing
  step of the main loop leaving guidance command and thrusts as they were) exactly when
  the peak value is below the detection threshold or the round-trip range
  \<open>(peakIndex / sampleRate) \<sqdot> speedOfSound \<sqdot> 100 / 2\<close> lies outside
  \<open>[MIN_RANGE_CM, MAX_RANGE_CM]\<close>; otherwise it returns \<open>0\<close> and stores that range, the
  best azimuth and elevation, the confidence \<open>min (peakValue / (threshold \<sqdot> 10)) 1\<close> and
  the valid mark.
\<close>

theorem detect_target_decision:
  assumes "scan_azimuth
             (the (fold (\<lambda>i st. sonar_matched_filter arm_correlate_f32 st i) [0..<NUM_MICS] (Some s)))
             ((BEAMFORM_AZIMUTH_MAX - BEAMFORM_AZIMUTH_MIN) / real BEAMFORM_AZIMUTH_STEPS)
             ((BEAMFORM_ELEVATION_MAX - BEAMFORM_ELEVATION_MIN) / real BEAMFORM_ELEVATION_STEPS)
             0 (0, 0, 0, 0)
           = (s', peakValue, best_azimuth, best_elevation, peakIndex)"
  shows "if peakValue < DETECTION_THRESHOLD \<or>
            round_trip_range_cm peakIndex < real MIN_RANGE_CM \<or>
            round_trip_range_cm peakIndex > real MAX_RANGE_CM
         then sonar_detect_target arm_correlate_f32 (Some s)
                = (if peakValue < DETECTION_THRESHOLD then - 2 else - 3,
                   Some (s'\<lparr>target := (target s')\<lparr>valid := False\<rparr>\<rparr>)) \<and>
              main_process_sonar arm_correlate_f32 s vehicle cmd thrust
                = (s'\<lparr>target := (target s')\<lparr>valid := False\<rparr>\<rparr>, cmd, thrust)
         else sonar_detect_target arm_correlate_f32 (Some s)
                = (0, Some (s'\<lparr>target :=
                               \<lparr>range_cm = round_trip_range_cm peakIndex,
                                azimuth_rad = best_azimuth,
                                elevation_rad = best_elevation,
                                confidence = min (peakValue / (DETECTION_THRESHOLD * 10)) 1,
                                valid = True\<rparr>,
                             processing_complete := True\<rparr>))"
proof -
  have unf: "sonar_detect_target arm_correlate_f32 (Some s) =
      (if peakValue < DETECTION_THRESHOLD then
         (- 2, Some (s'\<lparr>target := (target s')\<lparr>valid := False\<rparr>\<rparr>))
       else if round_trip_range_cm peakIndex < real MIN_RANGE_CM \<or>
               round_trip_range_cm peakIndex > real MAX_RANGE_CM then
         (- 3, Some (s'\<lparr>target := (target s')\<lparr>valid := False\<rparr>\<rparr>))
       else
         (0, Some (s'\<lparr>target := (target s')
                       \<lparr>range_cm := round_trip_range_cm peakIndex,
                        azimuth_rad := best_azimuth,
                        elevation_rad := best_elevation,
                        confidence := min (peakValue / (DETECTION_THRESHOLD * 10)) 1,
                        valid := True\<rparr>,
                     processing_complete := True\<rparr>)))"
    by (simp only: sonar_detect_target_def round_trip_range_cm_def Let_def option.case assms
          prod.case)
  show ?thesis
  proof (cases "peakValue < DETECTION_THRESHOLD \<or>
                round_trip_range_cm peakIndex < real MIN_RANGE_CM \<or>
                round_trip_range_cm peakIndex > real MAX_RANGE_CM")
    case True
    then have det: "sonar_detect_target arm_correlate_f32 (Some s)
        = (if peakValue < DETECTION_THRESHOLD then - 2 else - 3,
           Some (s'\<lparr>target := (target s')\<lparr>valid := False\<rparr>\<rparr>))"
      unfolding unf by auto
    have "main_process_sonar arm_correlate_f32 s vehicle cmd thrust
          = (s'\<lparr>target := (target s')\<lparr>valid := False\<rparr>\<rparr>, cmd, thrust)"
      unfolding main_process_sonar_def det by simp
    with det True show ?thesis by (simp only: if_True simp_thms)
  next
    case False
    then have "sonar_detect_target arm_correlate_f32 (Some s)
                = (0, Some (s'\<lparr>target :=
                               \<lparr>range_cm = round_trip_range_cm peakIndex,
                                azimuth_rad = best_azimuth,
                                elevation_rad = best_elevation,
                                confidence = min (peakValue / (DETECTION_THRESHOLD * 10)) 1,
                                valid = True\<rparr>,
                             processing_complete := True\<rparr>))"
      unfolding unf by simp
    with False show ?thesis by (simp only: if_False simp_thms)
  qed
qed

theorem detect_target_decision_witness:
  "scan_azimuth
     (the (fold (\<lambda>i st. sonar_matched_filter (\<lambda>srcA lenA srcB lenB dst. srcA) st i)
             [0..<NUM_MICS] (Some negative_peak_state)))
     ((BEAMFORM_AZIMUTH_MAX - BEAMFORM_AZIMUTH_MIN) / real BEAMFORM_AZIMUTH_STEPS)
     ((BEAMFORM_ELEVATION_MAX - BEAMFORM_ELEVATION_MIN) / real BEAMFORM_ELEVATION_STEPS)
     0 (0, 0, 0, 0)
   = (negative_peak_state\<lparr>beamformed_output := [- 2, 1 / 4]\<rparr>,
      1 / 4, BEAMFORM_AZIMUTH_MIN, BEAMFORM_ELEVATION_MIN, 1) \<and>
   (1 / 4 :: real) < DETECTION_THRESHOLD \<and>
   sonar_detect_target (\<lambda>srcA lenA srcB lenB dst. srcA) (Some negative_peak_state)
   = (- 2, Some (negative_peak_state
                  \<lparr>beamformed_output := [- 2, 1 / 4],
                   target := \<lparr>range_cm = 120, azimuth_rad = 0, elevation_rad = 0,
                              confidence = 1, valid = False\<rparr>\<rparr>)) \<and>
   main_process_sonar (\<lambda>srcA lenA srcB lenB dst. srcA) negative_peak_state
     \<lparr>pos_x = 0, pos_y = 0, pos_z = 0, vel_x = 0, vel_y = 0, vel_z = 0\<rparr>
     \<lparr>accel_x = 1, accel_y = 2, accel_z = 3, intercept = False\<rparr> [0, 0, 0, 0]
   = (negative_peak_state
        \<lparr>beamformed_output := [- 2, 1 / 4],
         target := \<lparr>range_cm = 120, azimuth_rad = 0, elevation_rad = 0,
                    confidence = 1, valid = False\<rparr>\<rparr>,
      \<lparr>accel_x = 1, accel_y = 2, accel_z = 3, intercept = False\<rparr>, [0, 0, 0, 0]) \<and>
   scan_azimuth
     (the (fold (\<lambda>i st. sonar_matched_filter (\<lambda>srcA lenA srcB lenB dst. srcA) st i)
             [0..<NUM_MICS] (Some spike_state)))
     ((BEAMFORM_AZIMUTH_MAX - BEAMFORM_AZIMUTH_MIN) / real BEAMFORM_AZIMUTH_STEPS)
     ((BEAMFORM_ELEVATION_MAX - BEAMFORM_ELEVATION_MIN) / real BEAMFORM_ELEVATION_STEPS)
     0 (0, 0, 0, 0)
   = (spike_state\<lparr>beamformed_output := replicate 117 0 @ [1000]\<rparr>,
      1000, BEAMFORM_AZIMUTH_MIN, BEAMFORM_ELEVATION_MIN, 117) \<and>
   sonar_detect_target (\<lambda>srcA lenA srcB lenB dst. srcA) (Some spike_state)
   = (0, Some (spike_state
                \<lparr>beamformed_output := replicate 117 0 @ [1000],
                 target := \<lparr>range_cm = 40131 / 4000, azimuth_rad = BEAMFORM_AZIMUTH_MIN,
                            elevation_rad = BEAMFORM_ELEVATION_MIN, confidence = 1 / 10,
                            valid = True\<rparr>,
                 processing_complete := True\<rparr>))"
proof -
  let ?v = "\<lparr>pos_x = 0, pos_y = 0, pos_z = 0, vel_x = 0, vel_y = 0, vel_z = 0\<rparr>"
  let ?c = "\<lparr>accel_x = 1, accel_y = 2, accel_z = 3, intercept = False\<rparr>"
  have scan: "scan_azimuth
     (the (fold (\<lambda>i st. sonar_matched_filter (\<lambda>srcA lenA srcB lenB dst. srcA) st i)
             [0..<NUM_MICS] (Some negative_peak_state)))
     ((BEAMFORM_AZIMUTH_MAX - BEAMFORM_AZIMUTH_MIN) / real BEAMFORM_AZIMUTH_STEPS)
     ((BEAMFORM_ELEVATION_MAX - BEAMFORM_ELEVATION_MIN) / real BEAMFORM_ELEVATION_STEPS)
     0 (0, 0, 0, 0)
   = (negative_peak_state\<lparr>beamformed_output := [- 2, 1 / 4]\<rparr>,
      1 / 4, BEAMFORM_AZIMUTH_MIN, BEAMFORM_ELEVATION_MIN, 1)"
    by (simp add: matched_filter_copy negative_peak_scan)
  have low: "(1 / 4 :: real) < DETECTION_THRESHOLD"
    by (simp add: DETECTION_THRESHOLD_def)
  have tgt: "target negative_peak_state
             = \<lparr>range_cm = 120, azimuth_rad = 0, elevation_rad = 0, confidence = 1, valid = True\<rparr>"
    by (simp add: negative_peak_state_def)
  have none: "sonar_detect_target (\<lambda>srcA lenA srcB lenB dst. srcA) (Some negative_peak_state)
      = (- 2, Some (negative_peak_state
                  \<lparr>beamformed_output := [- 2, 1 / 4],
                   target := \<lparr>range_cm = 120, azimuth_rad = 0, elevation_rad = 0,
                              confidence = 1, valid = False\<rparr>\<rparr>)) \<and>
    main_process_sonar (\<lambda>srcA lenA srcB lenB dst. srcA) negative_peak_state ?v ?c [0, 0, 0, 0]
      = (negative_peak_state
          \<lparr>beamformed_output := [- 2, 1 / 4],
           target := \<lparr>range_cm = 120, azimuth_rad = 0, elevation_rad = 0,
                      confidence = 1, valid = False\<rparr>\<rparr>, ?c, [0, 0, 0, 0])"
    using detect_target_decision [OF scan, of ?v ?c "[0, 0, 0, 0]"] low tgt
    by auto
  have scan2: "scan_azimuth
     (the (fold (\<lambda>i st. sonar_matched_filter (\<lambda>srcA lenA srcB lenB dst. srcA) st i)
             [0..<NUM_MICS] (Some spike_state)))
     ((BEAMFORM_AZIMUTH_MAX - BEAMFORM_AZIMUTH_MIN) / real BEAMFORM_AZIMUTH_STEPS)
     ((BEAMFORM_ELEVATION_MAX - BEAMFORM_ELEVATION_MIN) / real BEAMFORM_ELEVATION_STEPS)
     0 (0, 0, 0, 0)
   = (spike_state\<lparr>beamformed_output := replicate 117 0 @ [1000]\<rparr>,
      1000, BEAMFORM_AZIMUTH_MIN, BEAMFORM_ELEVATION_MIN, 117)"
    by (simp add: spike_matched_filter spike_scan)
  have ok: "\<not> ((1000 :: real) < DETECTION_THRESHOLD \<or>
            round_trip_range_cm 117 < real MIN_RANGE_CM \<or>
            round_trip_range_cm 117 > real MAX_RANGE_CM)"
    by (simp add: spike_range DETECTION_THRESHOLD_def MIN_RANGE_CM_def MAX_RANGE_CM_def)
  have found: "sonar_detect_target (\<lambda>srcA lenA srcB lenB dst. srcA) (Some spike_state)
      = (0, Some (spike_state
                \<lparr>beamformed_output := replicate 117 0 @ [1000],
                 target := \<lparr>range_cm = 40131 / 4000, azimuth_rad = BEAMFORM_AZIMUTH_MIN,
                            elevation_rad = BEAMFORM_ELEVATION_MIN, confidence = 1 / 10,
                            valid = True\<rparr>,
                 processing_complete := True\<rparr>))"
    using detect_target_decision [OF scan2, of ?v ?c "[0, 0, 0, 0]"] ok
    by (simp add: spike_range DETECTION_THRESHOLD_def)
  show ?thesis
    using scan low none scan2 found by (simp only: simp_thms)
qed

text \<open>
  C3, the code at an input where the claim fails. The beamformed output is \<open>[-2, 1/4]\<close>
  at every grid point: its largest absolute sample value is 2, at index 0, and the scan
  reports the peak value \<open>1/4\<close> with index 1, the largest signed sample.
\<close>

theorem angular_search_signed_peak:
  "scan_azimuth negative_peak_state az_step el_step 0 (0, 0, 0, 0)
   = (negative_peak_state\<lparr>beamformed_output := [- 2, 1 / 4]\<rparr>,
      1 / 4, BEAMFORM_AZIMUTH_MIN, BEAMFORM_ELEVATION_MIN, 1) \<and>
   \<bar>[- 2, 1 / 4 :: real] ! 0\<bar> = 2 \<and> \<bar>[- 2, 1 / 4 :: real] ! 1\<bar> = 1 / 4"
  by (simp add: negative_peak_scan)

end
